theory Spec2Isabelle
  imports Main
begin

section \<open>The Tavant status report tool\<close>

text \<open>
  A shallow embedding of \<^verbatim>\<open>src/tools/tavant_tools.py\<close>. The script drives the
  python-pptx library; the library is third-party code and is modelled by what the
  script asks of it:
  \<^item> a presentation is a list of slides, a slide a list of shapes, in the order in which
    they were added;
  \<^item> a shape is a rectangle (\<^verbatim>\<open>add_shape\<close>), a text box (\<^verbatim>\<open>add_textbox\<close>) or a table
    (\<^verbatim>\<open>add_table\<close>);
  \<^item> the library hands out a proxy of the object it has just appended and the script
    mutates that proxy before it adds the next object. The model computes the final value
    of the object and appends it then; the deck is observed only by \<^verbatim>\<open>save\<close>, so the two
    agree;
  \<^item> \<^verbatim>\<open>table.cell(r, c)\<close> and \<^verbatim>\<open>table.columns[j]\<close> raise IndexError out of range,
    and every such access of the script is a fallible step of the model;
  \<^item> the library checks a text when the script assigns it to a paragraph or a cell, and
    raises on a text it cannot store (the noncharacters U+FFFE and U+FFFF, for one). The
    functions that build tables and slides give what the script asks for; the check is made
    by \<open>assemble\<close> below, on the texts the script assigns, in the order of the assignments;
  \<^item> \<^verbatim>\<open>prs.save\<close>, \<^verbatim>\<open>datetime.now\<close> and the library's verdict on a text belong to the
    environment, a parameter of the model.

  Lengths are written by the script as \<^verbatim>\<open>Inches(x)\<close> with at most two decimals; the model
  keeps them in hundredths of an inch, so \<^verbatim>\<open>Inches(0.36)\<close> is 36. The conversion to
  the library's integral unit and the floating-point product \<^verbatim>\<open>0.3 * rows\<close> of the table
  heights are not modelled: a height is kept as \<open>30 * rows\<close>. Font sizes \<^verbatim>\<open>Pt(n)\<close> are
  kept in points. Strings are byte strings in UTF-8. Python names that start with an
  underscore lose it, since an Isabelle name cannot start with one.
\<close>

subsection \<open>Exceptions and loops\<close>

text \<open>
  An exception is its class name and the text \<^verbatim>\<open>str(e)\<close> gives for it. Only instances
  of \<^verbatim>\<open>Exception\<close> are modelled: these are what \<^verbatim>\<open>except Exception\<close> catches.
\<close>

datatype exn = Exn (exn_class: string) (exn_str: string)

definition and_then :: "exn + 'a \<Rightarrow> ('a \<Rightarrow> exn + 'b) \<Rightarrow> exn + 'b" where
  "and_then m f = (case m of Inl e \<Rightarrow> Inl e | Inr x \<Rightarrow> f x)"

text \<open>A \<^verbatim>\<open>for\<close> loop over a list, threading the mutated object; an exception ends it.\<close>

fun for_each :: "('s \<Rightarrow> 'a \<Rightarrow> exn + 's) \<Rightarrow> 's \<Rightarrow> 'a list \<Rightarrow> exn + 's" where
  "for_each body s [] = Inr s"
| "for_each body s (x # xs) =
     (case body s x of Inl e \<Rightarrow> Inl e | Inr s' \<Rightarrow> for_each body s' xs)"

text \<open>\<^verbatim>\<open>str(n)\<close> of a non-negative integer: its decimal digits.\<close>

definition digit_char :: "nat \<Rightarrow> char" where
  "digit_char d = ''0123456789'' ! d"

fun str_nat :: "nat \<Rightarrow> string" where
  "str_nat n = (if n < 10 then [digit_char n] else str_nat (n div 10) @ [digit_char (n mod 10)])"

declare str_nat.simps [simp del]

text \<open>A record dictionary \<^verbatim>\<open>Dict[str, str]\<close> and \<^verbatim>\<open>d.get(key, default)\<close>.\<close>

type_synonym dict = "string \<rightharpoonup> string"

definition dict_get :: "dict \<Rightarrow> string \<Rightarrow> string \<Rightarrow> string" where
  "dict_get d k dflt = (case d k of None \<Rightarrow> dflt | Some v \<Rightarrow> v)"

subsection \<open>Colours, paragraphs, shapes\<close>

datatype rgb = RgbColor nat nat nat

text \<open>
  The entries of \<^verbatim>\<open>TAVANT_COLORS\<close>, one constant for each key. The script imports the
  library's colour class under the name \<^verbatim>\<open>RgbColor\<close>; the model takes the import to
  succeed.
\<close>

definition TAVANT_primary :: rgb where "TAVANT_primary = RgbColor 0 0 0"
definition TAVANT_accent :: rgb where "TAVANT_accent = RgbColor 242 101 34"
definition TAVANT_white :: rgb where "TAVANT_white = RgbColor 255 255 255"
definition TAVANT_dark :: rgb where "TAVANT_dark = RgbColor 51 51 51"
definition TAVANT_light :: rgb where "TAVANT_light = RgbColor 245 245 245"

datatype align = CENTER | RIGHT

text \<open>A paragraph with the properties the script sets; \<open>None\<close> and \<open>False\<close> are "not set".\<close>

record para =
  p_text :: string
  p_size :: "nat option"
  p_bold :: bool
  p_color :: "rgb option"
  p_align :: "align option"
  p_space_after :: "nat option"

definition empty_para :: para where
  "empty_para =
     \<lparr>p_text = [], p_size = None, p_bold = False, p_color = None, p_align = None,
      p_space_after = None\<rparr>"

text \<open>Left, top, width and height, in hundredths of an inch.\<close>

record box =
  b_left :: nat
  b_top :: nat
  b_width :: nat
  b_height :: nat

definition Box :: "nat \<Rightarrow> nat \<Rightarrow> nat \<Rightarrow> nat \<Rightarrow> box" where
  "Box l t w h = \<lparr>b_left = l, b_top = t, b_width = w, b_height = h\<rparr>"

text \<open>A table cell: its text, its solid fill and the font of its first paragraph.\<close>

record cell =
  c_text :: string
  c_fill :: "rgb option"
  c_size :: "nat option"
  c_bold :: bool
  c_color :: "rgb option"

definition empty_cell :: cell where
  "empty_cell = \<lparr>c_text = [], c_fill = None, c_size = None, c_bold = False, c_color = None\<rparr>"

record table =
  t_col_widths :: "nat list"
  t_rows :: "cell list list"

text \<open>
  \<open>Rectangle\<close>: a \<^verbatim>\<open>MSO_SHAPE.RECTANGLE\<close> with its solid fill colour, no outline
  (\<^verbatim>\<open>line.fill.background()\<close>), and the first paragraph of its text frame.
  \<open>TextBox\<close>: its \<^verbatim>\<open>word_wrap\<close> flag and its paragraphs.
  \<open>GraphicFrame\<close>: the frame of a table.
\<close>

datatype shape =
    Rectangle box rgb para
  | TextBox box bool "para list"
  | GraphicFrame box table

subsection \<open>Tables\<close>

text \<open>
  \<^verbatim>\<open>add_table(rows, cols, left, top, width, height)\<close> makes a grid of empty cells whose
  columns share the width evenly. Its position and size go to the box of the table's
  frame, where the table function appends the frame to the slide.
\<close>

definition add_table :: "nat \<Rightarrow> nat \<Rightarrow> nat \<Rightarrow> table" where
  "add_table rows cols width =
     \<lparr>t_col_widths = replicate cols (width div cols),
      t_rows = replicate rows (replicate cols empty_cell)\<rparr>"

text \<open>\<^verbatim>\<open>table.columns[j].width = w\<close>\<close>

definition set_column_width :: "table \<Rightarrow> nat \<Rightarrow> nat \<Rightarrow> exn + table" where
  "set_column_width tbl j w =
     (if j < length (t_col_widths tbl)
      then Inr (tbl\<lparr>t_col_widths := (t_col_widths tbl)[j := w]\<rparr>)
      else Inl (Exn ''IndexError'' (''column index ['' @ str_nat j @ ''] out of range'')))"

text \<open>A mutation of \<^verbatim>\<open>table.cell(r, c)\<close>.\<close>

definition update_cell :: "table \<Rightarrow> nat \<Rightarrow> nat \<Rightarrow> (cell \<Rightarrow> cell) \<Rightarrow> exn + table" where
  "update_cell tbl r c f =
     (if r < length (t_rows tbl) \<and> c < length (t_rows tbl ! r)
      then Inr (tbl\<lparr>t_rows := (t_rows tbl)[r := (t_rows tbl ! r)[c := f (t_rows tbl ! r ! c)]]\<rparr>)
      else Inl (Exn ''IndexError'' ''list index out of range''))"

text \<open>\<^verbatim>\<open>table.cell(r, c).text = s\<close>\<close>

definition set_cell_text :: "table \<Rightarrow> nat \<Rightarrow> nat \<Rightarrow> string \<Rightarrow> exn + table" where
  "set_cell_text tbl r c s = update_cell tbl r c (\<lambda>x. x\<lparr>c_text := s\<rparr>)"

text \<open>
  The body of the header loop, the same in the four table functions: the text, the accent
  fill and a bold white 9pt font for \<^verbatim>\<open>table.cell(0, i)\<close>.
\<close>

definition write_header_cell :: "table \<Rightarrow> nat \<times> string \<Rightarrow> exn + table" where
  "write_header_cell tbl ih =
     (case ih of (i, header) \<Rightarrow>
        update_cell tbl 0 i
          (\<lambda>x. x\<lparr>c_text := header, c_fill := Some TAVANT_accent, c_size := Some 9,
                 c_bold := True, c_color := Some TAVANT_white\<rparr>))"

text \<open>
  The inner loop of a data row, \<^verbatim>\<open>for j in range(cols)\<close>: a 9pt dark font for
  \<^verbatim>\<open>table.cell(r, j)\<close>, in two statements.
\<close>

definition style_data_cell :: "table \<Rightarrow> nat \<Rightarrow> nat \<Rightarrow> exn + table" where
  "style_data_cell tbl r j =
     and_then (update_cell tbl r j (\<lambda>x. x\<lparr>c_size := Some 9\<rparr>))
       (\<lambda>tbl. update_cell tbl r j (\<lambda>x. x\<lparr>c_color := Some TAVANT_dark\<rparr>))"

text \<open>The bodies of the four data-row loops, over \<^verbatim>\<open>enumerate\<close> of the truncated list.\<close>

definition write_priority_row :: "table \<Rightarrow> nat \<times> dict \<Rightarrow> exn + table" where
  "write_priority_row tbl ip =
     (case ip of (i, priority) \<Rightarrow>
        and_then (set_cell_text tbl (i + 1) 0 (str_nat (i + 1))) (\<lambda>tbl.
        and_then (set_cell_text tbl (i + 1) 1 (dict_get priority ''description'' [])) (\<lambda>tbl.
        and_then (set_cell_text tbl (i + 1) 2 (dict_get priority ''owner'' [])) (\<lambda>tbl.
        for_each (\<lambda>tbl j. style_data_cell tbl (i + 1) j) tbl [0..<3]))))"

definition write_risk_row :: "table \<Rightarrow> nat \<times> dict \<Rightarrow> exn + table" where
  "write_risk_row tbl ir =
     (case ir of (i, risk) \<Rightarrow>
        and_then (set_cell_text tbl (i + 1) 0 (str_nat (i + 1))) (\<lambda>tbl.
        and_then (set_cell_text tbl (i + 1) 1 (dict_get risk ''description'' [])) (\<lambda>tbl.
        and_then (set_cell_text tbl (i + 1) 2 (dict_get risk ''owner'' [])) (\<lambda>tbl.
        and_then (set_cell_text tbl (i + 1) 3 (dict_get risk ''target_date'' [])) (\<lambda>tbl.
        and_then (set_cell_text tbl (i + 1) 4 (dict_get risk ''status'' [])) (\<lambda>tbl.
        for_each (\<lambda>tbl j. style_data_cell tbl (i + 1) j) tbl [0..<5]))))))"

definition write_milestone_row :: "table \<Rightarrow> nat \<times> dict \<Rightarrow> exn + table" where
  "write_milestone_row tbl im =
     (case im of (i, milestone) \<Rightarrow>
        and_then (set_cell_text tbl (i + 1) 0 (str_nat (i + 1))) (\<lambda>tbl.
        and_then (set_cell_text tbl (i + 1) 1 (dict_get milestone ''description'' [])) (\<lambda>tbl.
        and_then (set_cell_text tbl (i + 1) 2 (dict_get milestone ''target_date'' [])) (\<lambda>tbl.
        and_then (set_cell_text tbl (i + 1) 3 (dict_get milestone ''status'' [])) (\<lambda>tbl.
        for_each (\<lambda>tbl j. style_data_cell tbl (i + 1) j) tbl [0..<4])))))"

definition write_upcoming_row :: "table \<Rightarrow> nat \<times> dict \<Rightarrow> exn + table" where
  "write_upcoming_row tbl ii =
     (case ii of (i, item) \<Rightarrow>
        and_then (set_cell_text tbl (i + 1) 0 (dict_get item ''description'' [])) (\<lambda>tbl.
        and_then (set_cell_text tbl (i + 1) 1 (dict_get item ''target_date'' [])) (\<lambda>tbl.
        and_then (set_cell_text tbl (i + 1) 2 (dict_get item ''owner'' [])) (\<lambda>tbl.
        for_each (\<lambda>tbl j. style_data_cell tbl (i + 1) j) tbl [0..<3]))))"

text \<open>
  The four table functions. Each takes the shapes of the slide so far and returns them
  with the table's frame appended.
\<close>

definition add_priorities_table :: "shape list \<Rightarrow> dict list \<Rightarrow> exn + shape list" where
  "add_priorities_table slide priorities =
     (let rows = min (length priorities) 5 + 1;
          cols = 3;
          tbl = add_table rows cols 650
      in and_then (set_column_width tbl 0 40) (\<lambda>tbl.
         and_then (set_column_width tbl 1 420) (\<lambda>tbl.
         and_then (set_column_width tbl 2 190) (\<lambda>tbl.
         and_then (for_each write_header_cell tbl
                     (enumerate 0 [''#'', ''Description'', ''Owner''])) (\<lambda>tbl.
         and_then (for_each write_priority_row tbl (enumerate 0 (take 5 priorities))) (\<lambda>tbl.
         Inr (slide @ [GraphicFrame (Box 650 140 650 (30 * rows)) tbl])))))))"

definition add_risks_table :: "shape list \<Rightarrow> dict list \<Rightarrow> exn + shape list" where
  "add_risks_table slide risks =
     (let rows = min (length risks) 3 + 1;
          cols = 5;
          tbl = add_table rows cols 1260
      in and_then (set_column_width tbl 0 40) (\<lambda>tbl.
         and_then (set_column_width tbl 1 650) (\<lambda>tbl.
         and_then (set_column_width tbl 2 200) (\<lambda>tbl.
         and_then (set_column_width tbl 3 150) (\<lambda>tbl.
         and_then (set_column_width tbl 4 220) (\<lambda>tbl.
         and_then (for_each write_header_cell tbl
                     (enumerate 0 [''#'', ''Action Item'', ''Owner'', ''Target Date'', ''Status''])) (\<lambda>tbl.
         and_then (for_each write_risk_row tbl (enumerate 0 (take 3 risks))) (\<lambda>tbl.
         Inr (slide @ [GraphicFrame (Box 36 400 1260 (30 * rows)) tbl])))))))))"

definition add_milestones_table :: "shape list \<Rightarrow> dict list \<Rightarrow> nat \<Rightarrow> exn + shape list" where
  "add_milestones_table slide milestones top_in =
     (let rows = min (length milestones) 6 + 1;
          cols = 4;
          tbl = add_table rows cols 1260
      in and_then (set_column_width tbl 0 50) (\<lambda>tbl.
         and_then (set_column_width tbl 1 750) (\<lambda>tbl.
         and_then (set_column_width tbl 2 230) (\<lambda>tbl.
         and_then (set_column_width tbl 3 230) (\<lambda>tbl.
         and_then (for_each write_header_cell tbl
                     (enumerate 0 [''#'', ''Milestone Description'', ''Target Date'', ''Status''])) (\<lambda>tbl.
         and_then (for_each write_milestone_row tbl (enumerate 0 (take 6 milestones))) (\<lambda>tbl.
         Inr (slide @ [GraphicFrame (Box 36 top_in 1260 (30 * rows)) tbl]))))))))"

definition add_upcoming_table :: "shape list \<Rightarrow> dict list \<Rightarrow> nat \<Rightarrow> exn + shape list" where
  "add_upcoming_table slide upcoming top_in =
     (let rows = min (length upcoming) 3 + 1;
          cols = 3;
          tbl = add_table rows cols 1260
      in and_then (set_column_width tbl 0 800) (\<lambda>tbl.
         and_then (set_column_width tbl 1 230) (\<lambda>tbl.
         and_then (set_column_width tbl 2 230) (\<lambda>tbl.
         and_then (for_each write_header_cell tbl
                     (enumerate 0 [''Milestone'', ''Target Date'', ''Owner''])) (\<lambda>tbl.
         and_then (for_each write_upcoming_row tbl (enumerate 0 (take 3 upcoming))) (\<lambda>tbl.
         Inr (slide @ [GraphicFrame (Box 36 top_in 1260 (30 * rows)) tbl])))))))"

subsection \<open>Slides\<close>

record slide =
  s_layout :: string
  s_shapes :: "shape list"

record presentation =
  slide_width :: nat
  slide_height :: nat
  slide_layouts :: "string list"
  slides :: "slide list"

text \<open>\<^verbatim>\<open>Presentation()\<close>: the library's default template, ten inches wide, with no slide.\<close>

definition Presentation :: presentation where
  "Presentation =
     \<lparr>slide_width = 1000, slide_height = 750,
      slide_layouts =
        [''Title Slide'', ''Title and Content'', ''Section Header'', ''Two Content'',
         ''Comparison'', ''Title Only'', ''Blank'', ''Content with Caption'',
         ''Picture with Caption'', ''Title and Vertical Text'', ''Vertical Title and Text''],
      slides = []\<rparr>"

text \<open>\<^verbatim>\<open>prs.slide_layouts[n]\<close>\<close>

definition get_layout :: "presentation \<Rightarrow> nat \<Rightarrow> exn + string" where
  "get_layout prs n =
     (if n < length (slide_layouts prs) then Inr (slide_layouts prs ! n)
      else Inl (Exn ''IndexError'' ''slide layout index out of range''))"

text \<open>\<^verbatim>\<open>prs.slides.add_slide(layout)\<close>, with the shapes the function then puts on the slide.\<close>

definition add_slide :: "presentation \<Rightarrow> string \<Rightarrow> shape list \<Rightarrow> presentation" where
  "add_slide prs layout shapes =
     prs\<lparr>slides := slides prs @ [\<lparr>s_layout = layout, s_shapes = shapes\<rparr>]\<rparr>"

text \<open>A first paragraph after the script has set its text and font.\<close>

definition styled :: "string \<Rightarrow> nat \<Rightarrow> bool \<Rightarrow> rgb \<Rightarrow> align option \<Rightarrow> para" where
  "styled txt sz bld col al =
     empty_para\<lparr>p_text := txt, p_size := Some sz, p_bold := bld, p_color := Some col,
                p_align := al\<rparr>"

text \<open>The clock: \<^verbatim>\<open>datetime.now()\<close> and the two formats the script asks for.\<close>

datatype month =
  January | February | March | April | May | June | July | August | September | October
  | November | December

record datetime =
  dt_year :: nat
  dt_month :: month
  dt_day :: nat
  dt_hour :: nat
  dt_minute :: nat
  dt_second :: nat

fun month_name :: "month \<Rightarrow> string" where
  "month_name January = ''January''"
| "month_name February = ''February''"
| "month_name March = ''March''"
| "month_name April = ''April''"
| "month_name May = ''May''"
| "month_name June = ''June''"
| "month_name July = ''July''"
| "month_name August = ''August''"
| "month_name September = ''September''"
| "month_name October = ''October''"
| "month_name November = ''November''"
| "month_name December = ''December''"

fun month_number :: "month \<Rightarrow> nat" where
  "month_number January = 1"
| "month_number February = 2"
| "month_number March = 3"
| "month_number April = 4"
| "month_number May = 5"
| "month_number June = 6"
| "month_number July = 7"
| "month_number August = 8"
| "month_number September = 9"
| "month_number October = 10"
| "month_number November = 11"
| "month_number December = 12"

text \<open>A number in decimal, padded with zeros on the left to a width.\<close>

definition zero_padded :: "nat \<Rightarrow> nat \<Rightarrow> string" where
  "zero_padded w n = replicate (w - length (str_nat n)) (CHR ''0'') @ str_nat n"

text \<open>\<^verbatim>\<open>strftime("%B %d, %Y")\<close>, with the month names of the C locale.\<close>

definition strftime_B_d_Y :: "datetime \<Rightarrow> string" where
  "strftime_B_d_Y d =
     month_name (dt_month d) @ '' '' @ zero_padded 2 (dt_day d) @ '', '' @
     zero_padded 4 (dt_year d)"

text \<open>\<^verbatim>\<open>strftime("%Y%m%d_%H%M%S")\<close>\<close>

definition strftime_Ymd_HMS :: "datetime \<Rightarrow> string" where
  "strftime_Ymd_HMS d =
     zero_padded 4 (dt_year d) @ zero_padded 2 (month_number (dt_month d)) @
     zero_padded 2 (dt_day d) @ ''_'' @ zero_padded 2 (dt_hour d) @
     zero_padded 2 (dt_minute d) @ zero_padded 2 (dt_second d)"

text \<open>
  The environment of a call: the two readings of the clock, in the title slide and at the
  synthesis of the file name; the library's \<^verbatim>\<open>save\<close>, which acts on a file system of
  any type \<open>'fs\<close> and may raise; and \<open>rejects\<close>, the exception the library raises when
  a given text is assigned, \<open>None\<close> for a text it accepts.
\<close>

record 'fs env =
  now_title :: datetime
  now_save :: datetime
  save :: "'fs \<Rightarrow> string \<Rightarrow> presentation \<Rightarrow> (exn + unit) \<times> 'fs"
  rejects :: "string \<Rightarrow> exn option"

definition add_section_header :: "shape list \<Rightarrow> string \<Rightarrow> nat \<Rightarrow> nat \<Rightarrow> nat \<Rightarrow> shape list" where
  "add_section_header slide txt left_in top_in width =
     slide @ [Rectangle (Box left_in top_in width 35) TAVANT_accent
                (styled txt 11 True TAVANT_white None)]"

definition add_footer :: "shape list \<Rightarrow> shape list" where
  "add_footer slide =
     slide @ [TextBox (Box 1150 700 150 30) False
                [styled ''TAVANT'' 10 True TAVANT_accent (Some RIGHT)]]"

text \<open>
  The four slide functions. Each looks up the blank layout, adds a slide with it and puts
  its shapes on the slide; the shapes are given by a function of their own.
\<close>

definition title_shapes :: "'fs env \<Rightarrow> string \<Rightarrow> string \<Rightarrow> shape list" where
  "title_shapes env project_name period_label =
     [Rectangle (Box 0 0 1333 750) TAVANT_primary empty_para,
      Rectangle (Box 0 680 1333 15) TAVANT_accent empty_para,
      TextBox (Box 50 40 400 50) False [styled ''TAVANT'' 24 True TAVANT_accent None],
      TextBox (Box 50 250 1200 100) False
        [styled ''WEEKLY STATUS REPORT'' 44 True TAVANT_white None],
      TextBox (Box 50 360 1000 50) False
        [styled (''Project: '' @ project_name) 24 False TAVANT_white None],
      TextBox (Box 50 450 400 40) False
        [styled (strftime_B_d_Y (now_title env)) 18 False TAVANT_accent None],
      TextBox (Box 50 500 800 30) False
        [styled period_label 14 False TAVANT_white None]]"

definition create_title_slide ::
  "'fs env \<Rightarrow> presentation \<Rightarrow> string \<Rightarrow> string \<Rightarrow> exn + presentation" where
  "create_title_slide env prs project_name period_label =
     and_then (get_layout prs 6) (\<lambda>slide_layout.
       Inr (add_slide prs slide_layout (title_shapes env project_name period_label)))"

text \<open>
  The bullet of an accomplishment, \<^verbatim>\<open>"\<close>U+2022\<^verbatim>\<open> {acc}"\<close>: the three bytes of the
  bullet character in UTF-8 and a space.
\<close>

definition bullet_prefix :: string where
  "bullet_prefix = [CHR 0xE2, CHR 0x80, CHR 0xA2, CHR '' '']"

definition bullet :: "para \<Rightarrow> string \<Rightarrow> para" where
  "bullet p acc =
     p\<lparr>p_text := bullet_prefix @ acc, p_size := Some 10, p_color := Some TAVANT_dark,
       p_space_after := Some 4\<rparr>"

text \<open>
  The body of the accomplishments loop, on the paragraphs of the text frame: the first
  bullet takes \<^verbatim>\<open>paragraphs[0]\<close>, every other one a new paragraph.
\<close>

definition write_accomplishment :: "para list \<Rightarrow> nat \<times> string \<Rightarrow> exn + para list" where
  "write_accomplishment ps ia =
     (case ia of (i, acc) \<Rightarrow>
        if i = 0
        then (case ps of
                [] \<Rightarrow> Inl (Exn ''IndexError'' ''tuple index out of range'')
              | p # rest \<Rightarrow> Inr (bullet p acc # rest))
        else Inr (ps @ [bullet empty_para acc]))"

definition summary_shapes :: "string list \<Rightarrow> dict list \<Rightarrow> dict list \<Rightarrow> exn + shape list" where
  "summary_shapes accomplishments priorities risks =
     (let slide = [TextBox (Box 36 30 1200 50) False
                     [styled ''Executive Summary'' 28 True TAVANT_dark None],
                   Rectangle (Box 36 80 1260 5) TAVANT_accent empty_para];
          slide = add_section_header slide ''Key Accomplishments for Last Period'' 36 100 580
      in and_then (for_each write_accomplishment [empty_para]
                     (enumerate 0 (take 5 accomplishments))) (\<lambda>acc_tf.
         (let slide = slide @ [TextBox (Box 36 140 580 200) True acc_tf];
              slide = add_section_header slide ''Top Priorities for Next Period'' 650 100 650
          in and_then (add_priorities_table slide priorities) (\<lambda>slide.
             (let slide = add_section_header slide ''Key Risks, Issues and Action Items''
                            36 360 1260
              in and_then (add_risks_table slide risks) (\<lambda>slide.
                 Inr (add_footer slide)))))))"

definition create_executive_summary_slide ::
  "presentation \<Rightarrow> string list \<Rightarrow> dict list \<Rightarrow> dict list \<Rightarrow> exn + presentation" where
  "create_executive_summary_slide prs accomplishments priorities risks =
     and_then (get_layout prs 6) (\<lambda>slide_layout.
     and_then (summary_shapes accomplishments priorities risks) (\<lambda>slide.
       Inr (add_slide prs slide_layout slide)))"

definition milestones_shapes :: "dict list \<Rightarrow> dict list \<Rightarrow> exn + shape list" where
  "milestones_shapes milestones upcoming =
     (let slide = [TextBox (Box 36 30 1200 50) False
                     [styled ''Key Milestones'' 28 True TAVANT_dark None],
                   Rectangle (Box 36 80 1260 5) TAVANT_accent empty_para];
          slide = add_section_header slide ''Key Milestones and Status'' 36 100 1260
      in and_then (add_milestones_table slide milestones 140) (\<lambda>slide.
         (let slide = add_section_header slide ''Upcoming Key Milestones'' 36 420 1260
          in and_then (add_upcoming_table slide upcoming 460) (\<lambda>slide.
             Inr (add_footer slide)))))"

definition create_milestones_slide ::
  "presentation \<Rightarrow> dict list \<Rightarrow> dict list \<Rightarrow> exn + presentation" where
  "create_milestones_slide prs milestones upcoming =
     and_then (get_layout prs 6) (\<lambda>slide_layout.
     and_then (milestones_shapes milestones upcoming) (\<lambda>slide.
       Inr (add_slide prs slide_layout slide)))"

text \<open>The contact text box of the closing slide.\<close>

definition contact_box :: "string \<Rightarrow> shape" where
  "contact_box contact_info =
     TextBox (Box 850 610 400 30) False
       [styled contact_info 10 False TAVANT_white (Some RIGHT)]"

definition thank_you_shapes :: "string \<Rightarrow> shape list" where
  "thank_you_shapes contact_info =
     (let slide = [Rectangle (Box 0 0 1333 750) TAVANT_primary empty_para,
                   Rectangle (Box 0 680 1333 15) TAVANT_accent empty_para,
                   TextBox (Box 50 280 1233 120) False
                     [styled ''THANK YOU'' 56 True TAVANT_white (Some CENTER)],
                   TextBox (Box 850 550 400 50) False
                     [styled ''TAVANT'' 24 True TAVANT_accent (Some RIGHT)]]
      in if contact_info \<noteq> [] then slide @ [contact_box contact_info] else slide)"

definition create_thank_you_slide :: "presentation \<Rightarrow> string \<Rightarrow> exn + presentation" where
  "create_thank_you_slide prs contact_info =
     and_then (get_layout prs 6) (\<lambda>slide_layout.
       Inr (add_slide prs slide_layout (thank_you_shapes contact_info)))"

subsection \<open>The tool\<close>

text \<open>
  The parameters of \<^verbatim>\<open>create_tavant_status_report\<close> once a call is bound. \<open>None\<close> is
  Python's \<^verbatim>\<open>None\<close>, the default of \<^verbatim>\<open>upcoming_milestones\<close> and of \<^verbatim>\<open>output_path\<close>.
\<close>

record params =
  project_name :: string
  period_label :: string
  accomplishments :: "string list"
  priorities :: "dict list"
  risks :: "dict list"
  milestones :: "dict list"
  upcoming_milestones :: "dict list option"
  contact_info :: string
  output_path :: "string option"

text \<open>The two dictionaries the function returns.\<close>

datatype result =
    Success (file_path: string) (slides_created: nat) (message: string)
  | Failure (error: string)

text \<open>\<^verbatim>\<open>upcoming_milestones or []\<close>\<close>

definition or_empty :: "'a list option \<Rightarrow> 'a list" where
  "or_empty v = (case v of None \<Rightarrow> [] | Some xs \<Rightarrow> xs)"

text \<open>\<^verbatim>\<open>s.replace(' ', '_')\<close>\<close>

definition replace_spaces :: "string \<Rightarrow> string" where
  "replace_spaces s = map (\<lambda>c. if c = CHR '' '' then CHR ''_'' else c) s"

text \<open>
  Lines 55 to 69: the deck and its four slides, as the script asks for them.
\<close>

definition build_slides :: "'fs env \<Rightarrow> params \<Rightarrow> exn + presentation" where
  "build_slides env a =
     (let prs = Presentation\<lparr>slide_width := 1333, slide_height := 750\<rparr>
      in and_then (create_title_slide env prs (project_name a) (period_label a)) (\<lambda>prs.
         and_then (create_executive_summary_slide prs (accomplishments a) (priorities a)
                     (risks a)) (\<lambda>prs.
         and_then (create_milestones_slide prs (milestones a)
                     (or_empty (upcoming_milestones a))) (\<lambda>prs.
         create_thank_you_slide prs (contact_info a)))))"

text \<open>
  Lines 72 to 74: the path the deck is saved at. \<^verbatim>\<open>not output_path\<close> holds of \<^verbatim>\<open>None\<close>
  and of the empty string.
\<close>

definition resolve_output_path :: "'fs env \<Rightarrow> params \<Rightarrow> string" where
  "resolve_output_path env a =
     (let synthesized = ''Tavant_WSR_'' @ replace_spaces (project_name a) @ ''_'' @
                        strftime_Ymd_HMS (now_save env) @ ''.pptx''
      in case output_path a of
           None \<Rightarrow> synthesized
         | Some p \<Rightarrow> if p = [] then synthesized else p)"

text \<open>
  The texts the script assigns while it builds a shape, in the order of the assignments:
  the text of every paragraph it writes and of every cell of a table. A paragraph it does
  not touch (of a background, of the empty accomplishments box) is still the empty
  paragraph; every paragraph it writes has a font size.
\<close>

fun assigned :: "shape \<Rightarrow> string list" where
  "assigned (Rectangle b c p) = (if p = empty_para then [] else [p_text p])"
| "assigned (TextBox b w ps) = map p_text (filter (\<lambda>p. p \<noteq> empty_para) ps)"
| "assigned (GraphicFrame b t) = concat (map (map c_text) (t_rows t))"

definition deck_texts :: "presentation \<Rightarrow> string list" where
  "deck_texts prs = concat (map (\<lambda>s. concat (map assigned (s_shapes s))) (slides prs))"

definition assigned_texts :: "'fs env \<Rightarrow> params \<Rightarrow> string list" where
  "assigned_texts env a =
     (case build_slides env a of Inl e \<Rightarrow> [] | Inr prs \<Rightarrow> deck_texts prs)"

text \<open>The exception of the first text the library rejects, if it rejects one.\<close>

fun first_rejection :: "(string \<Rightarrow> exn option) \<Rightarrow> string list \<Rightarrow> exn option" where
  "first_rejection f [] = None"
| "first_rejection f (t # ts) =
     (case f t of Some e \<Rightarrow> Some e | None \<Rightarrow> first_rejection f ts)"

definition rejection :: "'fs env \<Rightarrow> params \<Rightarrow> exn option" where
  "rejection env a = first_rejection (rejects env) (assigned_texts env a)"

text \<open>
  Lines 55 to 69 as they run: the assignment of a text the library rejects raises, and
  the deck built so far is lost with the exception; otherwise the deck is the one asked
  for.
\<close>

definition assemble :: "'fs env \<Rightarrow> params \<Rightarrow> exn + presentation" where
  "assemble env a =
     and_then (build_slides env a) (\<lambda>prs.
       case rejection env a of Some e \<Rightarrow> Inl e | None \<Rightarrow> Inr prs)"

text \<open>The body of the \<^verbatim>\<open>try\<close> block, with the file system before and after.\<close>

definition try_block :: "'fs env \<Rightarrow> 'fs \<Rightarrow> params \<Rightarrow> (exn + result) \<times> 'fs" where
  "try_block env fs a =
     (case assemble env a of
        Inl e \<Rightarrow> (Inl e, fs)
      | Inr prs \<Rightarrow>
          (case save env fs (resolve_output_path env a) prs of
             (Inl e, fs') \<Rightarrow> (Inl e, fs')
           | (Inr u, fs') \<Rightarrow>
               (Inr (Success (resolve_output_path env a) 4
                       ''Tavant Status Report created successfully''), fs')))"

text \<open>The function: the \<^verbatim>\<open>try\<close> block and its \<^verbatim>\<open>except Exception as e\<close> handler.\<close>

definition create_tavant_status_report :: "'fs env \<Rightarrow> 'fs \<Rightarrow> params \<Rightarrow> result \<times> 'fs" where
  "create_tavant_status_report env fs a =
     (case try_block env fs a of
        (Inl e, fs') \<Rightarrow> (Failure (exn_str e), fs')
      | (Inr r, fs') \<Rightarrow> (r, fs'))"

subsection \<open>Calling the tool\<close>

text \<open>
  A call by keyword, as a host makes it from the fields of a request
  (\<^verbatim>\<open>TAVANT_TOOL_DEFINITION\<close>): \<open>None\<close> is a keyword the call does not pass. The signature
  gives a default to \<^verbatim>\<open>upcoming_milestones\<close>, \<^verbatim>\<open>contact_info\<close> and \<^verbatim>\<open>output_path\<close>
  only; a call without one of the other six parameters raises TypeError before the body
  of the function is entered, so outside its \<^verbatim>\<open>try\<close>.
\<close>

record kwargs =
  kw_project_name :: "string option"
  kw_period_label :: "string option"
  kw_accomplishments :: "string list option"
  kw_priorities :: "dict list option"
  kw_risks :: "dict list option"
  kw_milestones :: "dict list option"
  kw_upcoming_milestones :: "dict list option"
  kw_contact_info :: "string option"
  kw_output_path :: "string option"

datatype 'a outcome = Returned 'a | Raised exn

text \<open>The \<^verbatim>\<open>required\<close> list of \<^verbatim>\<open>TAVANT_TOOL_DEFINITION["inputSchema"]\<close>.\<close>

definition schema_required :: "string list" where
  "schema_required = [''project_name'', ''period_label'', ''accomplishments'']"

text \<open>The parameters without a default that a call leaves out, in the signature's order.\<close>

definition missing_arguments :: "kwargs \<Rightarrow> string list" where
  "missing_arguments k =
     (if kw_project_name k = None then [''project_name''] else []) @
     (if kw_period_label k = None then [''period_label''] else []) @
     (if kw_accomplishments k = None then [''accomplishments''] else []) @
     (if kw_priorities k = None then [''priorities''] else []) @
     (if kw_risks k = None then [''risks''] else []) @
     (if kw_milestones k = None then [''milestones''] else [])"

text \<open>The interpreter's message for them.\<close>

fun quoted_names :: "string list \<Rightarrow> string" where
  "quoted_names [] = []"
| "quoted_names [a] = [CHR 39] @ a @ [CHR 39]"
| "quoted_names [a, b] = [CHR 39] @ a @ [CHR 39] @ '' and '' @ [CHR 39] @ b @ [CHR 39]"
| "quoted_names (a # b # c # ds) =
     (if ds = []
      then [CHR 39] @ a @ [CHR 39] @ '', '' @ [CHR 39] @ b @ [CHR 39] @ '', and '' @
           [CHR 39] @ c @ [CHR 39]
      else [CHR 39] @ a @ [CHR 39] @ '', '' @ quoted_names (b # c # ds))"

definition missing_message :: "string list \<Rightarrow> string" where
  "missing_message names =
     ''create_tavant_status_report() missing '' @ str_nat (length names) @
     '' required positional argument'' @ (if length names = 1 then [] else ''s'') @ '': '' @
     quoted_names names"

definition call_tool :: "'fs env \<Rightarrow> 'fs \<Rightarrow> kwargs \<Rightarrow> result outcome \<times> 'fs" where
  "call_tool env fs k =
     (case (kw_project_name k, kw_period_label k, kw_accomplishments k, kw_priorities k,
            kw_risks k, kw_milestones k) of
        (Some pn, Some pl, Some acc, Some pr, Some ri, Some mi) \<Rightarrow>
          (case create_tavant_status_report env fs
                  \<lparr>project_name = pn, period_label = pl, accomplishments = acc,
                   priorities = pr, risks = ri, milestones = mi,
                   upcoming_milestones = kw_upcoming_milestones k,
                   contact_info = (case kw_contact_info k of None \<Rightarrow> [] | Some c \<Rightarrow> c),
                   output_path = kw_output_path k\<rparr> of
             (r, fs') \<Rightarrow> (Returned r, fs'))
      | _ \<Rightarrow> (Raised (Exn ''TypeError'' (missing_message (missing_arguments k))), fs))"

subsection \<open>What the loops compute\<close>

text \<open>
  The values the loops of the script arrive at, in closed form; the lemmas below prove
  that the loops compute them. A header cell and a data cell with a given text:
\<close>

definition header_cell :: "string \<Rightarrow> cell" where
  "header_cell h =
     \<lparr>c_text = h, c_fill = Some TAVANT_accent, c_size = Some 9, c_bold = True,
      c_color = Some TAVANT_white\<rparr>"

definition data_cell :: "string \<Rightarrow> cell" where
  "data_cell s =
     \<lparr>c_text = s, c_fill = None, c_size = Some 9, c_bold = False,
      c_color = Some TAVANT_dark\<rparr>"

definition priority_row :: "nat \<Rightarrow> dict \<Rightarrow> cell list" where
  "priority_row i p =
     map data_cell [str_nat (Suc i), dict_get p ''description'' [], dict_get p ''owner'' []]"

definition risk_row :: "nat \<Rightarrow> dict \<Rightarrow> cell list" where
  "risk_row i r =
     map data_cell [str_nat (Suc i), dict_get r ''description'' [], dict_get r ''owner'' [],
                    dict_get r ''target_date'' [], dict_get r ''status'' []]"

definition milestone_row :: "nat \<Rightarrow> dict \<Rightarrow> cell list" where
  "milestone_row i m =
     map data_cell [str_nat (Suc i), dict_get m ''description'' [],
                    dict_get m ''target_date'' [], dict_get m ''status'' []]"

definition upcoming_row :: "nat \<Rightarrow> dict \<Rightarrow> cell list" where
  "upcoming_row i u =
     map data_cell [dict_get u ''description'' [], dict_get u ''target_date'' [],
                    dict_get u ''owner'' []]"

definition priorities_table :: "dict list \<Rightarrow> table" where
  "priorities_table ps =
     \<lparr>t_col_widths = [40, 420, 190],
      t_rows = map header_cell [''#'', ''Description'', ''Owner''] #
               map (\<lambda>(i, p). priority_row i p) (enumerate 0 (take 5 ps))\<rparr>"

definition risks_table :: "dict list \<Rightarrow> table" where
  "risks_table rs =
     \<lparr>t_col_widths = [40, 650, 200, 150, 220],
      t_rows = map header_cell [''#'', ''Action Item'', ''Owner'', ''Target Date'', ''Status''] #
               map (\<lambda>(i, r). risk_row i r) (enumerate 0 (take 3 rs))\<rparr>"

definition milestones_table :: "dict list \<Rightarrow> table" where
  "milestones_table ms =
     \<lparr>t_col_widths = [50, 750, 230, 230],
      t_rows = map header_cell [''#'', ''Milestone Description'', ''Target Date'', ''Status''] #
               map (\<lambda>(i, m). milestone_row i m) (enumerate 0 (take 6 ms))\<rparr>"

definition upcoming_table :: "dict list \<Rightarrow> table" where
  "upcoming_table us =
     \<lparr>t_col_widths = [800, 230, 230],
      t_rows = map header_cell [''Milestone'', ''Target Date'', ''Owner''] #
               map (\<lambda>(i, u). upcoming_row i u) (enumerate 0 (take 3 us))\<rparr>"

definition accomplishment_paras :: "string list \<Rightarrow> para list" where
  "accomplishment_paras accs =
     (if accs = [] then [empty_para] else map (bullet empty_para) (take 5 accs))"

definition summary_layout :: "string list \<Rightarrow> dict list \<Rightarrow> dict list \<Rightarrow> shape list" where
  "summary_layout accs ps rs =
     [TextBox (Box 36 30 1200 50) False [styled ''Executive Summary'' 28 True TAVANT_dark None],
      Rectangle (Box 36 80 1260 5) TAVANT_accent empty_para,
      Rectangle (Box 36 100 580 35) TAVANT_accent
        (styled ''Key Accomplishments for Last Period'' 11 True TAVANT_white None),
      TextBox (Box 36 140 580 200) True (accomplishment_paras accs),
      Rectangle (Box 650 100 650 35) TAVANT_accent
        (styled ''Top Priorities for Next Period'' 11 True TAVANT_white None),
      GraphicFrame (Box 650 140 650 (30 * (min (length ps) 5 + 1))) (priorities_table ps),
      Rectangle (Box 36 360 1260 35) TAVANT_accent
        (styled ''Key Risks, Issues and Action Items'' 11 True TAVANT_white None),
      GraphicFrame (Box 36 400 1260 (30 * (min (length rs) 3 + 1))) (risks_table rs),
      TextBox (Box 1150 700 150 30) False
        [styled ''TAVANT'' 10 True TAVANT_accent (Some RIGHT)]]"

definition milestones_layout :: "dict list \<Rightarrow> dict list \<Rightarrow> shape list" where
  "milestones_layout ms us =
     [TextBox (Box 36 30 1200 50) False [styled ''Key Milestones'' 28 True TAVANT_dark None],
      Rectangle (Box 36 80 1260 5) TAVANT_accent empty_para,
      Rectangle (Box 36 100 1260 35) TAVANT_accent
        (styled ''Key Milestones and Status'' 11 True TAVANT_white None),
      GraphicFrame (Box 36 140 1260 (30 * (min (length ms) 6 + 1))) (milestones_table ms),
      Rectangle (Box 36 420 1260 35) TAVANT_accent
        (styled ''Upcoming Key Milestones'' 11 True TAVANT_white None),
      GraphicFrame (Box 36 460 1260 (30 * (min (length us) 3 + 1))) (upcoming_table us),
      TextBox (Box 1150 700 150 30) False
        [styled ''TAVANT'' 10 True TAVANT_accent (Some RIGHT)]]"

text \<open>The deck of a request: the four slides on the blank layout.\<close>

definition deck :: "'fs env \<Rightarrow> params \<Rightarrow> presentation" where
  "deck env a =
     \<lparr>slide_width = 1333, slide_height = 750,
      slide_layouts = slide_layouts Presentation,
      slides =
        [\<lparr>s_layout = ''Blank'',
          s_shapes = title_shapes env (project_name a) (period_label a)\<rparr>,
         \<lparr>s_layout = ''Blank'',
          s_shapes = summary_layout (accomplishments a) (priorities a) (risks a)\<rparr>,
         \<lparr>s_layout = ''Blank'',
          s_shapes = milestones_layout (milestones a) (or_empty (upcoming_milestones a))\<rparr>,
         \<lparr>s_layout = ''Blank'', s_shapes = thank_you_shapes (contact_info a)\<rparr>]\<rparr>"

text \<open>Observations of a slide: its tables, and every text on it.\<close>

fun tables_of :: "shape list \<Rightarrow> table list" where
  "tables_of [] = []"
| "tables_of (GraphicFrame b t # xs) = t # tables_of xs"
| "tables_of (x # xs) = tables_of xs"

fun shape_texts :: "shape \<Rightarrow> string list" where
  "shape_texts (Rectangle b c p) = [p_text p]"
| "shape_texts (TextBox b w ps) = map p_text ps"
| "shape_texts (GraphicFrame b t) = concat (map (map c_text) (t_rows t))"

definition slide_texts :: "slide \<Rightarrow> string list" where
  "slide_texts s = concat (map shape_texts (s_shapes s))"

text \<open>The paragraphs of the text boxes of a slide that wrap their words: the bullets.\<close>

fun wrapped_paras :: "shape list \<Rightarrow> para list" where
  "wrapped_paras [] = []"
| "wrapped_paras (TextBox b w ps # xs) = (if w then ps else []) @ wrapped_paras xs"
| "wrapped_paras (x # xs) = wrapped_paras xs"

fun shape_box :: "shape \<Rightarrow> box" where
  "shape_box (Rectangle b c p) = b"
| "shape_box (TextBox b w ps) = b"
| "shape_box (GraphicFrame b t) = b"

text \<open>The number a string of decimal digits denotes.\<close>

definition decimal_value :: "string \<Rightarrow> nat" where
  "decimal_value s = foldl (\<lambda>acc c. 10 * acc + (of_char c - 48)) 0 s"

subsection \<open>Example environments and requests\<close>

text \<open>
  A file system as the list of the files written, each with the number of slides it holds,
  and four behaviours of \<^verbatim>\<open>save\<close>: the file is written; the path is not writable; the
  library raises an exception that has no message; the device fills up after the file
  has been created. The library of the examples rejects a text that holds U+FFFE or
  U+FFFF (in UTF-8 the bytes EF BF BE and EF BF BF) and accepts every other text.
\<close>

fun has_noncharacter :: "string \<Rightarrow> bool" where
  "has_noncharacter (a # b # c # s) =
     ((a = CHR 0xEF \<and> b = CHR 0xBF \<and> (c = CHR 0xBE \<or> c = CHR 0xBF)) \<or>
      has_noncharacter (b # c # s))"
| "has_noncharacter s = False"

definition noncharacter_rejects :: "string \<Rightarrow> exn option" where
  "noncharacter_rejects t =
     (if has_noncharacter t
      then Some (Exn ''ValueError''
        ''All strings must be XML compatible: Unicode or ASCII, no NULL bytes or control characters'')
      else None)"

type_synonym disk = "(string \<times> nat) list"

definition example_clock :: datetime where
  "example_clock =
     \<lparr>dt_year = 2025, dt_month = December, dt_day = 13, dt_hour = 9, dt_minute = 5,
      dt_second = 30\<rparr>"

definition writing_save :: "disk \<Rightarrow> string \<Rightarrow> presentation \<Rightarrow> (exn + unit) \<times> disk" where
  "writing_save fs path prs = (Inr (), (path, length (slides prs)) # fs)"

definition denied_save :: "disk \<Rightarrow> string \<Rightarrow> presentation \<Rightarrow> (exn + unit) \<times> disk" where
  "denied_save fs path prs =
     (Inl (Exn ''PermissionError'' (''[Errno 13] Permission denied: '' @ [CHR 39] @ path @ [CHR 39])), fs)"

definition silent_save :: "disk \<Rightarrow> string \<Rightarrow> presentation \<Rightarrow> (exn + unit) \<times> disk" where
  "silent_save fs path prs = (Inl (Exn ''MemoryError'' []), fs)"

definition partial_save :: "disk \<Rightarrow> string \<Rightarrow> presentation \<Rightarrow> (exn + unit) \<times> disk" where
  "partial_save fs path prs =
     (Inl (Exn ''OSError'' ''[Errno 28] No space left on device''), (path, 0) # fs)"

definition example_env ::
  "(disk \<Rightarrow> string \<Rightarrow> presentation \<Rightarrow> (exn + unit) \<times> disk) \<Rightarrow> disk env" where
  "example_env sv =
     \<lparr>now_title = example_clock, now_save = example_clock, save = sv,
      rejects = noncharacter_rejects\<rparr>"

definition apollo :: params where
  "apollo =
     \<lparr>project_name = ''Apollo'', period_label = ''Week Ending Dec 13, 2025'',
      accomplishments = [''Shipped the importer''], priorities = [], risks = [],
      milestones = [], upcoming_milestones = None, contact_info = [], output_path = None\<rparr>"

definition apollo_request :: kwargs where
  "apollo_request =
     \<lparr>kw_project_name = Some ''Apollo'', kw_period_label = Some ''Week Ending Dec 13, 2025'',
      kw_accomplishments = Some [''Shipped the importer''], kw_priorities = None,
      kw_risks = None, kw_milestones = None, kw_upcoming_milestones = None,
      kw_contact_info = None, kw_output_path = None\<rparr>"

text \<open>A request with ten entries in every list, and a record without any key.\<close>

definition ten_of_each :: params where
  "ten_of_each =
     \<lparr>project_name = ''Big Project'', period_label = ''Q4'',
      accomplishments = replicate 10 ''done'',
      priorities = replicate 10 [''description'' \<mapsto> ''next'', ''owner'' \<mapsto> ''Ann''],
      risks = replicate 10 [''description'' \<mapsto> ''late''],
      milestones = replicate 10 [''status'' \<mapsto> ''open''],
      upcoming_milestones = Some (replicate 10 Map.empty),
      contact_info = ''pmo@example.com'', output_path = Some ''out/report.pptx''\<rparr>"

text \<open>A request whose lists are all empty.\<close>

definition bare :: params where
  "bare =
     \<lparr>project_name = ''Hermes'', period_label = ''Week 50'', accomplishments = [],
      priorities = [], risks = [], milestones = [], upcoming_milestones = Some [],
      contact_info = [], output_path = Some ''hermes.pptx''\<rparr>"

text \<open>The same request for a project whose name is the character U+FFFE.\<close>

definition unnamed_project :: params where
  "unnamed_project = bare\<lparr>project_name := [CHR 0xEF, CHR 0xBF, CHR 0xBE]\<rparr>"

text \<open>A later reading of the clock.\<close>

definition later_clock :: datetime where
  "later_clock =
     \<lparr>dt_year = 2026, dt_month = January, dt_day = 2, dt_hour = 17, dt_minute = 45,
      dt_second = 8\<rparr>"

text \<open>The Apollo request with an output path in a directory that is not writable.\<close>

definition denied :: params where
  "denied = apollo\<lparr>output_path := Some ''/root/report.pptx''\<rparr>"

section \<open>The loops and the slides in closed form\<close>

lemma and_then_Inr [simp]: "and_then (Inr x) f = f x"
  by (simp add: and_then_def)

lemma and_then_Inl [simp]: "and_then (Inl e) f = Inl e"
  by (simp add: and_then_def)

lemma upt_3: "[0..<3] = [0, 1, 2]" by (simp add: upt_rec)
lemma upt_4: "[0..<4] = [0, 1, 2, 3]" by (simp add: upt_rec)
lemma upt_5: "[0..<5] = [0, 1, 2, 3, 4]" by (simp add: upt_rec)

lemma replicate_3: "replicate 3 x = [x, x, x]" by (simp add: numeral_3_eq_3)
lemma replicate_4: "replicate 4 x = [x, x, x, x]" by (simp add: eval_nat_numeral)
lemma replicate_5: "replicate 5 x = [x, x, x, x, x]" by (simp add: eval_nat_numeral)

lemmas row_defs = set_cell_text_def update_cell_def style_data_cell_def data_cell_def
  empty_cell_def

lemma priority_row_step:
  assumes "Suc i < length (t_rows tbl)" and "t_rows tbl ! Suc i = replicate 3 empty_cell"
  shows "write_priority_row tbl (i, p) =
    Inr (tbl\<lparr>t_rows := (t_rows tbl)[Suc i := priority_row i p]\<rparr>)"
  using assms
  by (simp add: write_priority_row_def priority_row_def row_defs upt_3 replicate_3)

lemma risk_row_step:
  assumes "Suc i < length (t_rows tbl)" and "t_rows tbl ! Suc i = replicate 5 empty_cell"
  shows "write_risk_row tbl (i, r) =
    Inr (tbl\<lparr>t_rows := (t_rows tbl)[Suc i := risk_row i r]\<rparr>)"
  using assms
  by (simp add: write_risk_row_def risk_row_def row_defs upt_5 replicate_5)

lemma milestone_row_step:
  assumes "Suc i < length (t_rows tbl)" and "t_rows tbl ! Suc i = replicate 4 empty_cell"
  shows "write_milestone_row tbl (i, m) =
    Inr (tbl\<lparr>t_rows := (t_rows tbl)[Suc i := milestone_row i m]\<rparr>)"
  using assms
  by (simp add: write_milestone_row_def milestone_row_def row_defs upt_4 replicate_4)

lemma upcoming_row_step:
  assumes "Suc i < length (t_rows tbl)" and "t_rows tbl ! Suc i = replicate 3 empty_cell"
  shows "write_upcoming_row tbl (i, u) =
    Inr (tbl\<lparr>t_rows := (t_rows tbl)[Suc i := upcoming_row i u]\<rparr>)"
  using assms
  by (simp add: write_upcoming_row_def upcoming_row_def row_defs upt_3 replicate_3)

lemma rows_loop:
  assumes step: "\<And>tbl i x. Suc i < length (t_rows tbl) \<Longrightarrow>
      t_rows tbl ! Suc i = replicate n empty_cell \<Longrightarrow>
      body tbl (i, x) = Inr (tbl\<lparr>t_rows := (t_rows tbl)[Suc i := row i x]\<rparr>)"
  shows "t_rows tbl = pre @ replicate m (replicate n empty_cell) \<Longrightarrow> length pre = Suc i \<Longrightarrow>
     length xs \<le> m \<Longrightarrow>
     for_each body tbl (enumerate i xs) =
       Inr (tbl\<lparr>t_rows := pre @ map (\<lambda>(i, x). row i x) (enumerate i xs) @
              replicate (m - length xs) (replicate n empty_cell)\<rparr>)"
proof (induction xs arbitrary: tbl pre i m)
  case Nil
  then show ?case by simp
next
  case (Cons x xs)
  then obtain m' where m: "m = Suc m'" by (cases m) auto
  let ?tbl' = "tbl\<lparr>t_rows := (t_rows tbl)[Suc i := row i x]\<rparr>"
  have b: "body tbl (i, x) = Inr ?tbl'"
    using Cons.prems m by (intro step) (simp_all add: nth_append)
  have r: "t_rows ?tbl' = (pre @ [row i x]) @ replicate m' (replicate n empty_cell)"
    using Cons.prems m by (simp add: list_update_append)
  have "for_each body ?tbl' (enumerate (Suc i) xs) =
      Inr (?tbl'\<lparr>t_rows := (pre @ [row i x]) @ map (\<lambda>(i, x). row i x) (enumerate (Suc i) xs) @
              replicate (m' - length xs) (replicate n empty_cell)\<rparr>)"
    using Cons.prems m by (intro Cons.IH[OF r]) simp_all
  then show ?case using b m by simp
qed

lemma header_loop:
  "t_rows tbl = (pre @ replicate (length hs) empty_cell) # rest \<Longrightarrow>
   for_each write_header_cell tbl (enumerate (length pre) hs) =
     Inr (tbl\<lparr>t_rows := (pre @ map header_cell hs) # rest\<rparr>)"
proof (induction hs arbitrary: tbl pre)
  case Nil
  then show ?case by simp
next
  case (Cons h hs)
  let ?tbl' = "tbl\<lparr>t_rows := ((pre @ [header_cell h]) @ replicate (length hs) empty_cell) # rest\<rparr>"
  have b: "write_header_cell tbl (length pre, h) = Inr ?tbl'"
    using Cons.prems
    by (simp add: write_header_cell_def update_cell_def nth_append list_update_append
        header_cell_def empty_cell_def)
  have "for_each write_header_cell ?tbl' (enumerate (length (pre @ [header_cell h])) hs) =
      Inr (?tbl'\<lparr>t_rows := ((pre @ [header_cell h]) @ map header_cell hs) # rest\<rparr>)"
    by (rule Cons.IH) simp
  then show ?case using b by simp
qed

text \<open>The two loops of a table function, one after the other, on the fresh grid.\<close>

lemma table_loops:
  assumes step: "\<And>tbl i x. Suc i < length (t_rows tbl) \<Longrightarrow>
      t_rows tbl ! Suc i = replicate (length hs) empty_cell \<Longrightarrow>
      body tbl (i, x) = Inr (tbl\<lparr>t_rows := (t_rows tbl)[Suc i := row i x]\<rparr>)"
    and rows: "t_rows tbl = replicate (Suc (length xs)) (replicate (length hs) empty_cell)"
  shows "and_then (for_each write_header_cell tbl (enumerate 0 hs))
           (\<lambda>tbl. and_then (for_each body tbl (enumerate 0 xs)) k) =
         k (tbl\<lparr>t_rows := map header_cell hs # map (\<lambda>(i, x). row i x) (enumerate 0 xs)\<rparr>)"
proof -
  let ?t1 = "tbl\<lparr>t_rows := map header_cell hs # replicate (length xs) (replicate (length hs) empty_cell)\<rparr>"
  have h: "for_each write_header_cell tbl (enumerate 0 hs) = Inr ?t1"
    using header_loop [of tbl "[]" hs "replicate (length xs) (replicate (length hs) empty_cell)"] rows
    by simp
  have d: "for_each body ?t1 (enumerate 0 xs) =
      Inr (?t1\<lparr>t_rows := [map header_cell hs] @ map (\<lambda>(i, x). row i x) (enumerate 0 xs) @
        replicate (length xs - length xs) (replicate (length hs) empty_cell)\<rparr>)"
    by (rule rows_loop [where n = "length hs"]) (simp_all add: step)
  show ?thesis using h d by simp
qed

lemma add_priorities_table_eq:
  "add_priorities_table slide ps =
     Inr (slide @ [GraphicFrame (Box 650 140 650 (30 * (min (length ps) 5 + 1)))
                     (priorities_table ps)])"
  unfolding add_priorities_table_def Let_def priorities_table_def
  by (simp del: enumerate_simps add: add_table_def set_column_width_def replicate_3
      table_loops [where row = priority_row] priority_row_step)

lemma add_risks_table_eq:
  "add_risks_table slide rs =
     Inr (slide @ [GraphicFrame (Box 36 400 1260 (30 * (min (length rs) 3 + 1)))
                     (risks_table rs)])"
  unfolding add_risks_table_def Let_def risks_table_def
  by (simp del: enumerate_simps add: add_table_def set_column_width_def replicate_5
      table_loops [where row = risk_row] risk_row_step)

lemma add_milestones_table_eq:
  "add_milestones_table slide ms tp =
     Inr (slide @ [GraphicFrame (Box 36 tp 1260 (30 * (min (length ms) 6 + 1)))
                     (milestones_table ms)])"
  unfolding add_milestones_table_def Let_def milestones_table_def
  by (simp del: enumerate_simps add: add_table_def set_column_width_def replicate_4
      table_loops [where row = milestone_row] milestone_row_step)

lemma add_upcoming_table_eq:
  "add_upcoming_table slide us tp =
     Inr (slide @ [GraphicFrame (Box 36 tp 1260 (30 * (min (length us) 3 + 1)))
                     (upcoming_table us)])"
  unfolding add_upcoming_table_def Let_def upcoming_table_def
  by (simp del: enumerate_simps add: add_table_def set_column_width_def replicate_3
      table_loops [where row = upcoming_row] upcoming_row_step)


lemma accomplishments_tail:
  "0 < i \<Longrightarrow> for_each write_accomplishment ps (enumerate i xs) =
     Inr (ps @ map (bullet empty_para) xs)"
  by (induction xs arbitrary: ps i) (simp_all add: write_accomplishment_def)

lemma accomplishments_loop:
  "for_each write_accomplishment [empty_para] (enumerate 0 (take 5 accs)) =
     Inr (accomplishment_paras accs)"
proof (cases accs)
  case Nil
  then show ?thesis by (simp add: accomplishment_paras_def)
next
  case (Cons x xs)
  then show ?thesis
    by (simp add: accomplishment_paras_def write_accomplishment_def accomplishments_tail
        eval_nat_numeral)
qed

lemma summary_shapes_eq:
  "summary_shapes accs ps rs = Inr (summary_layout accs ps rs)"
  unfolding summary_shapes_def Let_def
  by (simp add: accomplishments_loop add_priorities_table_eq add_risks_table_eq
      add_section_header_def add_footer_def summary_layout_def)

lemma milestones_shapes_eq:
  "milestones_shapes ms us = Inr (milestones_layout ms us)"
  unfolding milestones_shapes_def Let_def
  by (simp add: add_milestones_table_eq add_upcoming_table_eq
      add_section_header_def add_footer_def milestones_layout_def)

lemma get_blank_layout:
  "slide_layouts prs = slide_layouts Presentation \<Longrightarrow> get_layout prs 6 = Inr ''Blank''"
  by (simp add: get_layout_def Presentation_def)

lemma build_slides_eq: "build_slides env a = Inr (deck env a)"
  unfolding build_slides_def Let_def
  by (simp add: create_title_slide_def create_executive_summary_slide_def
      create_milestones_slide_def create_thank_you_slide_def get_blank_layout add_slide_def
      summary_shapes_eq milestones_shapes_eq deck_def Presentation_def)

lemma assemble_eq:
  "assemble env a = (case rejection env a of Some e \<Rightarrow> Inl e | None \<Rightarrow> Inr (deck env a))"
  by (simp add: assemble_def build_slides_eq)

lemma try_block_eq:
  "try_block env fs a =
     (case rejection env a of
        Some e \<Rightarrow> (Inl e, fs)
      | None \<Rightarrow>
          (case save env fs (resolve_output_path env a) (deck env a) of
             (Inl e, fs') \<Rightarrow> (Inl e, fs')
           | (Inr u, fs') \<Rightarrow>
               (Inr (Success (resolve_output_path env a) 4
                       ''Tavant Status Report created successfully''), fs')))"
  by (simp add: try_block_def assemble_eq split: option.splits)

lemma create_eq:
  "create_tavant_status_report env fs a =
     (case rejection env a of
        Some e \<Rightarrow> (Failure (exn_str e), fs)
      | None \<Rightarrow>
          (case save env fs (resolve_output_path env a) (deck env a) of
             (Inl e, fs') \<Rightarrow> (Failure (exn_str e), fs')
           | (Inr u, fs') \<Rightarrow>
               (Success (resolve_output_path env a) 4
                  ''Tavant Status Report created successfully'', fs')))"
  by (simp add: create_tavant_status_report_def try_block_eq
      split: prod.splits sum.splits option.splits)

lemma deck_tables:
  "tables_of (summary_layout accs ps rs) = [priorities_table ps, risks_table rs]"
  "tables_of (milestones_layout ms us) = [milestones_table ms, upcoming_table us]"
  "tables_of (title_shapes env pn pl) = []"
  "tables_of (thank_you_shapes c) = []"
  by (simp_all add: summary_layout_def milestones_layout_def title_shapes_def
      thank_you_shapes_def contact_box_def Let_def)

lemma summary_wrapped: "wrapped_paras (summary_layout accs ps rs) = accomplishment_paras accs"
  by (simp add: summary_layout_def)

lemma bullets_count:
  "length (filter (\<lambda>p. p_text p \<noteq> []) (accomplishment_paras accs)) = min (length accs) 5"
  by (simp add: accomplishment_paras_def empty_para_def bullet_def bullet_prefix_def)

lemma deck_slides:
  "slides (deck env a) =
      [\<lparr>s_layout = ''Blank'', s_shapes = title_shapes env (project_name a) (period_label a)\<rparr>,
       \<lparr>s_layout = ''Blank'',
        s_shapes = summary_layout (accomplishments a) (priorities a) (risks a)\<rparr>,
       \<lparr>s_layout = ''Blank'',
        s_shapes = milestones_layout (milestones a) (or_empty (upcoming_milestones a))\<rparr>,
       \<lparr>s_layout = ''Blank'', s_shapes = thank_you_shapes (contact_info a)\<rparr>]"
  by (simp add: deck_def)

lemma headings:
  "''WEEKLY STATUS REPORT'' \<in>
     set (slide_texts \<lparr>s_layout = l, s_shapes = title_shapes env pn pl\<rparr>)"
  "''Executive Summary'' \<in>
     set (slide_texts \<lparr>s_layout = l, s_shapes = summary_layout accs ps rs\<rparr>)"
  "''Key Milestones'' \<in>
     set (slide_texts \<lparr>s_layout = l, s_shapes = milestones_layout ms us\<rparr>)"
  "''THANK YOU'' \<in> set (slide_texts \<lparr>s_layout = l, s_shapes = thank_you_shapes c\<rparr>)"
  by (simp_all add: slide_texts_def title_shapes_def summary_layout_def milestones_layout_def
      thank_you_shapes_def Let_def styled_def)

lemma example_timestamp: "strftime_Ymd_HMS example_clock = ''20251213_090530''"
  by (simp add: strftime_Ymd_HMS_def example_clock_def zero_padded_def str_nat.simps
      digit_char_def)

lemma example_date: "strftime_B_d_Y example_clock = ''December 13, 2025''"
  by (simp add: strftime_B_d_Y_def example_clock_def zero_padded_def str_nat.simps
      digit_char_def)

lemma written_not_empty:
  "styled t sz b c al \<noteq> empty_para" "bullet empty_para x \<noteq> empty_para"
  by (simp_all add: styled_def bullet_def empty_para_def)

lemma filter_bullets:
  "filter (\<lambda>p. p \<noteq> empty_para) (map (bullet empty_para) xs) = map (bullet empty_para) xs"
  by (induction xs) (simp_all add: written_not_empty)

lemma assigned_bullets:
  "map p_text (filter (\<lambda>p. p \<noteq> empty_para) (accomplishment_paras accs)) =
     map ((@) bullet_prefix) (take 5 accs)"
  by (simp add: accomplishment_paras_def filter_bullets bullet_def comp_def)

lemma header_only:
  "t_rows (priorities_table []) = [map header_cell [''#'', ''Description'', ''Owner'']]"
  "t_rows (risks_table []) =
     [map header_cell [''#'', ''Action Item'', ''Owner'', ''Target Date'', ''Status'']]"
  "t_rows (milestones_table []) =
     [map header_cell [''#'', ''Milestone Description'', ''Target Date'', ''Status'']]"
  "t_rows (upcoming_table []) = [map header_cell [''Milestone'', ''Target Date'', ''Owner'']]"
  by (simp_all add: priorities_table_def risks_table_def milestones_table_def
      upcoming_table_def)

lemma assigned_texts_eq:
  "assigned_texts env a =
     [''TAVANT'', ''WEEKLY STATUS REPORT'', ''Project: '' @ project_name a,
      strftime_B_d_Y (now_title env), period_label a,
      ''Executive Summary'', ''Key Accomplishments for Last Period''] @
     map ((@) bullet_prefix) (take 5 (accomplishments a)) @
     [''Top Priorities for Next Period''] @
     concat (map (map c_text) (t_rows (priorities_table (priorities a)))) @
     [''Key Risks, Issues and Action Items''] @
     concat (map (map c_text) (t_rows (risks_table (risks a)))) @
     [''TAVANT'', ''Key Milestones'', ''Key Milestones and Status''] @
     concat (map (map c_text) (t_rows (milestones_table (milestones a)))) @
     [''Upcoming Key Milestones''] @
     concat (map (map c_text) (t_rows (upcoming_table (or_empty (upcoming_milestones a))))) @
     [''TAVANT'', ''THANK YOU'', ''TAVANT''] @
     (if contact_info a = [] then [] else [contact_info a])"
  by (simp add: assigned_texts_def build_slides_eq deck_texts_def deck_slides title_shapes_def
      summary_layout_def milestones_layout_def thank_you_shapes_def Let_def contact_box_def
      written_not_empty assigned_bullets)
     (simp add: styled_def)

lemma first_rejection_append:
  "first_rejection f (xs @ ys) =
     (case first_rejection f xs of Some e \<Rightarrow> Some e | None \<Rightarrow> first_rejection f ys)"
  by (induction xs) (simp_all split: option.splits)

lemma bare_accepted: "rejection (example_env sv) bare = None"
  by (simp add: rejection_def assigned_texts_eq bare_def example_env_def or_empty_def
      header_only header_cell_def noncharacter_rejects_def example_date bullet_prefix_def)


lemma apollo_accepted: "rejection (example_env sv) apollo = None"
  by (simp add: rejection_def assigned_texts_eq apollo_def example_env_def or_empty_def
      header_only header_cell_def noncharacter_rejects_def example_date bullet_prefix_def)

lemma denied_accepted: "rejection (example_env sv) denied = None"
  by (simp add: rejection_def assigned_texts_eq denied_def apollo_def example_env_def
      or_empty_def header_only header_cell_def noncharacter_rejects_def example_date
      bullet_prefix_def)

lemma unnamed_project_rejected:
  "rejection (example_env sv) unnamed_project =
     Some (Exn ''ValueError''
       ''All strings must be XML compatible: Unicode or ASCII, no NULL bytes or control characters'')"
  by (simp add: rejection_def assigned_texts_eq unnamed_project_def bare_def example_env_def
      noncharacter_rejects_def)

lemma replicate_6: "replicate 6 x = [x, x, x, x, x, x]" by (simp add: eval_nat_numeral)

lemma single_digit: "n < 10 \<Longrightarrow> \<not> has_noncharacter (str_nat n)"
  by (simp add: str_nat.simps)

lemma ten_of_each_accepted: "rejection (example_env sv) ten_of_each = None"
  by (simp add: rejection_def assigned_texts_eq ten_of_each_def example_env_def or_empty_def
      priorities_table_def risks_table_def milestones_table_def upcoming_table_def
      priority_row_def risk_row_def milestone_row_def upcoming_row_def data_cell_def
      dict_get_def replicate_3 replicate_5 replicate_6 single_digit
      header_cell_def noncharacter_rejects_def example_date bullet_prefix_def)

lemma apollo_accepted_later:
  "rejection ((example_env sv)\<lparr>now_save := c\<rparr>) apollo = None"
  by (simp add: rejection_def assigned_texts_eq apollo_def example_env_def or_empty_def
      header_only header_cell_def noncharacter_rejects_def example_date bullet_prefix_def)

lemma later_timestamp: "strftime_Ymd_HMS later_clock = ''20260102_174508''"
  by (simp add: strftime_Ymd_HMS_def later_clock_def zero_padded_def str_nat.simps
      digit_char_def)

section \<open>The tables\<close>

text \<open>
  Claim C5. Whatever the records are, each of the four tables is built without an
  exception and has \<open>min (number of records) cap + 1\<close> rows, the caps being 5 for the
  priorities, 3 for the risks, 6 for the milestones and 3 for the upcoming milestones.
  Row 0 is the header row. The column widths are the constants of the table's function
  (in hundredths of an inch) and do not depend on the records.
\<close>

theorem table_rows_and_widths:
  "(\<exists>b t. add_priorities_table slide ps = Inr (slide @ [GraphicFrame b t]) \<and>
       length (t_rows t) = min (length ps) 5 + 1 \<and>
       map c_text (t_rows t ! 0) = [''#'', ''Description'', ''Owner''] \<and>
       t_rows t ! 0 = map header_cell [''#'', ''Description'', ''Owner''] \<and>
       t_col_widths t = [40, 420, 190]) \<and>
   (\<exists>b t. add_risks_table slide rs = Inr (slide @ [GraphicFrame b t]) \<and>
       length (t_rows t) = min (length rs) 3 + 1 \<and>
       map c_text (t_rows t ! 0) = [''#'', ''Action Item'', ''Owner'', ''Target Date'', ''Status''] \<and>
       t_rows t ! 0 =
         map header_cell [''#'', ''Action Item'', ''Owner'', ''Target Date'', ''Status''] \<and>
       t_col_widths t = [40, 650, 200, 150, 220]) \<and>
   (\<exists>b t. add_milestones_table slide ms tp = Inr (slide @ [GraphicFrame b t]) \<and>
       length (t_rows t) = min (length ms) 6 + 1 \<and>
       map c_text (t_rows t ! 0) = [''#'', ''Milestone Description'', ''Target Date'', ''Status''] \<and>
       t_rows t ! 0 =
         map header_cell [''#'', ''Milestone Description'', ''Target Date'', ''Status''] \<and>
       t_col_widths t = [50, 750, 230, 230]) \<and>
   (\<exists>b t. add_upcoming_table slide us tp = Inr (slide @ [GraphicFrame b t]) \<and>
       length (t_rows t) = min (length us) 3 + 1 \<and>
       map c_text (t_rows t ! 0) = [''Milestone'', ''Target Date'', ''Owner''] \<and>
       t_rows t ! 0 = map header_cell [''Milestone'', ''Target Date'', ''Owner''] \<and>
       t_col_widths t = [800, 230, 230])"
proof (intro conjI)
  show "\<exists>b t. add_priorities_table slide ps = Inr (slide @ [GraphicFrame b t]) \<and>
       length (t_rows t) = min (length ps) 5 + 1 \<and>
       map c_text (t_rows t ! 0) = [''#'', ''Description'', ''Owner''] \<and>
       t_rows t ! 0 = map header_cell [''#'', ''Description'', ''Owner''] \<and>
       t_col_widths t = [40, 420, 190]"
    by (simp add: add_priorities_table_eq priorities_table_def header_cell_def)
  show "\<exists>b t. add_risks_table slide rs = Inr (slide @ [GraphicFrame b t]) \<and>
       length (t_rows t) = min (length rs) 3 + 1 \<and>
       map c_text (t_rows t ! 0) = [''#'', ''Action Item'', ''Owner'', ''Target Date'', ''Status''] \<and>
       t_rows t ! 0 =
         map header_cell [''#'', ''Action Item'', ''Owner'', ''Target Date'', ''Status''] \<and>
       t_col_widths t = [40, 650, 200, 150, 220]"
    by (simp add: add_risks_table_eq risks_table_def header_cell_def)
  show "\<exists>b t. add_milestones_table slide ms tp = Inr (slide @ [GraphicFrame b t]) \<and>
       length (t_rows t) = min (length ms) 6 + 1 \<and>
       map c_text (t_rows t ! 0) = [''#'', ''Milestone Description'', ''Target Date'', ''Status''] \<and>
       t_rows t ! 0 =
         map header_cell [''#'', ''Milestone Description'', ''Target Date'', ''Status''] \<and>
       t_col_widths t = [50, 750, 230, 230]"
    by (simp add: add_milestones_table_eq milestones_table_def header_cell_def)
  show "\<exists>b t. add_upcoming_table slide us tp = Inr (slide @ [GraphicFrame b t]) \<and>
       length (t_rows t) = min (length us) 3 + 1 \<and>
       map c_text (t_rows t ! 0) = [''Milestone'', ''Target Date'', ''Owner''] \<and>
       t_rows t ! 0 = map header_cell [''Milestone'', ''Target Date'', ''Owner''] \<and>
       t_col_widths t = [800, 230, 230]"
    by (simp add: add_upcoming_table_eq upcoming_table_def header_cell_def)
qed

text \<open>
  Claim C2. In the deck of any request the accomplishments box holds the bullets of the
  first five accomplishments and no other (one empty paragraph when there is none), and
  the data rows of the four tables are the rows of the first 5 priorities, 3 risks,
  6 milestones and 3 upcoming milestones: the number of rendered entries is the minimum
  of the number supplied and the cap.
\<close>

theorem lists_truncated:
  "\<exists>prs s1 s2 s3 s4 pt rt mt ut.
     build_slides env a = Inr prs \<and> slides prs = [s1, s2, s3, s4] \<and>
     wrapped_paras (s_shapes s2) =
       (if accomplishments a = [] then [empty_para]
        else map (bullet empty_para) (take 5 (accomplishments a))) \<and>
     length (filter (\<lambda>p. p_text p \<noteq> []) (wrapped_paras (s_shapes s2))) =
       min (length (accomplishments a)) 5 \<and>
     tables_of (s_shapes s1) = [] \<and> tables_of (s_shapes s2) = [pt, rt] \<and>
     tables_of (s_shapes s3) = [mt, ut] \<and> tables_of (s_shapes s4) = [] \<and>
     drop 1 (t_rows pt) =
       map (\<lambda>(i, p). priority_row i p) (enumerate 0 (take 5 (priorities a))) \<and>
     length (drop 1 (t_rows pt)) = min (length (priorities a)) 5 \<and>
     drop 1 (t_rows rt) = map (\<lambda>(i, r). risk_row i r) (enumerate 0 (take 3 (risks a))) \<and>
     length (drop 1 (t_rows rt)) = min (length (risks a)) 3 \<and>
     drop 1 (t_rows mt) =
       map (\<lambda>(i, m). milestone_row i m) (enumerate 0 (take 6 (milestones a))) \<and>
     length (drop 1 (t_rows mt)) = min (length (milestones a)) 6 \<and>
     drop 1 (t_rows ut) =
       map (\<lambda>(i, u). upcoming_row i u)
         (enumerate 0 (take 3 (or_empty (upcoming_milestones a)))) \<and>
     length (drop 1 (t_rows ut)) = min (length (or_empty (upcoming_milestones a))) 3"
proof -
  have "slides (deck env a) =
      [\<lparr>s_layout = ''Blank'', s_shapes = title_shapes env (project_name a) (period_label a)\<rparr>,
       \<lparr>s_layout = ''Blank'',
        s_shapes = summary_layout (accomplishments a) (priorities a) (risks a)\<rparr>,
       \<lparr>s_layout = ''Blank'',
        s_shapes = milestones_layout (milestones a) (or_empty (upcoming_milestones a))\<rparr>,
       \<lparr>s_layout = ''Blank'', s_shapes = thank_you_shapes (contact_info a)\<rparr>]"
    by (simp add: deck_def)
  then show ?thesis
    apply (intro exI [of _ "deck env a"] exI conjI)
    apply (rule build_slides_eq)
    apply assumption
    apply (simp_all add: deck_tables summary_wrapped bullets_count)
    apply (simp_all add: accomplishment_paras_def priorities_table_def risks_table_def milestones_table_def upcoming_table_def)
    done
qed

text \<open>Ten entries in every list give 5 bullets and 5, 3, 6 and 3 data rows.\<close>

theorem lists_truncated_ten:
  "\<exists>prs s1 s2 s3 s4 pt rt mt ut.
     build_slides (example_env writing_save) ten_of_each = Inr prs \<and>
     slides prs = [s1, s2, s3, s4] \<and>
     length (filter (\<lambda>p. p_text p \<noteq> []) (wrapped_paras (s_shapes s2))) = 5 \<and>
     tables_of (s_shapes s2) = [pt, rt] \<and> tables_of (s_shapes s3) = [mt, ut] \<and>
     length (drop 1 (t_rows pt)) = 5 \<and> length (drop 1 (t_rows rt)) = 3 \<and>
     length (drop 1 (t_rows mt)) = 6 \<and> length (drop 1 (t_rows ut)) = 3"
proof -
  have n: "length (accomplishments ten_of_each) = 10" "length (priorities ten_of_each) = 10"
    "length (risks ten_of_each) = 10" "length (milestones ten_of_each) = 10"
    "length (or_empty (upcoming_milestones ten_of_each)) = 10"
    by (simp_all add: ten_of_each_def or_empty_def)
  from lists_truncated [of "example_env writing_save" ten_of_each] show ?thesis
    apply (elim exE conjE)
    subgoal for prs s1 s2 s3 s4 pt rt mt ut
      apply (rule exI [of _ prs], rule exI [of _ s1], rule exI [of _ s2], rule exI [of _ s3],
          rule exI [of _ s4], rule exI [of _ pt], rule exI [of _ rt], rule exI [of _ mt],
          rule exI [of _ ut])
      apply (simp only: n)
      apply simp
      done
    done
qed

section \<open>The result of a call\<close>

text \<open>
  Claim C1. Whenever the function returns the success dictionary, the deck it has built
  and saved has exactly four slides, in the order title slide, executive summary,
  milestones, thank-you slide; the dictionary holds the resolved path the deck was saved
  at, \<open>slides_created = 4\<close> and the message.
\<close>

theorem success_has_four_slides:
  assumes "create_tavant_status_report env fs a = (Success path n msg, fs')"
  shows "\<exists>prs s1 s2 s3 s4.
     build_slides env a = Inr prs \<and> slides prs = [s1, s2, s3, s4] \<and>
     s_shapes s1 = title_shapes env (project_name a) (period_label a) \<and>
     summary_shapes (accomplishments a) (priorities a) (risks a) = Inr (s_shapes s2) \<and>
     milestones_shapes (milestones a) (or_empty (upcoming_milestones a)) = Inr (s_shapes s3) \<and>
     s_shapes s4 = thank_you_shapes (contact_info a) \<and>
     ''WEEKLY STATUS REPORT'' \<in> set (slide_texts s1) \<and>
     ''Executive Summary'' \<in> set (slide_texts s2) \<and>
     ''Key Milestones'' \<in> set (slide_texts s3) \<and>
     ''THANK YOU'' \<in> set (slide_texts s4) \<and>
     save env fs path prs = (Inr (), fs') \<and>
     path = resolve_output_path env a \<and> n = 4 \<and>
     msg = ''Tavant Status Report created successfully''"
proof -
  from assms have s: "save env fs (resolve_output_path env a) (deck env a) = (Inr (), fs')"
    and r: "path = resolve_output_path env a" "n = 4"
      "msg = ''Tavant Status Report created successfully''"
    by (auto simp: create_eq split: prod.splits sum.splits option.splits)
  show ?thesis
    apply (rule exI [of _ "deck env a"])
    apply (intro exI conjI)
                 apply (rule build_slides_eq)
                apply (rule deck_slides)
               apply (simp_all add: summary_shapes_eq milestones_shapes_eq headings s r)
    done
qed

text \<open>A request with an output path, on a file system that takes the file.\<close>

theorem success_has_four_slides_example:
  "create_tavant_status_report (example_env writing_save) [] ten_of_each =
     (Success ''out/report.pptx'' 4 ''Tavant Status Report created successfully'',
      [(''out/report.pptx'', 4)]) \<and>
   (\<exists>prs s1 s2 s3 s4.
      build_slides (example_env writing_save) ten_of_each = Inr prs \<and>
      slides prs = [s1, s2, s3, s4] \<and>
      ''WEEKLY STATUS REPORT'' \<in> set (slide_texts s1) \<and>
      ''Executive Summary'' \<in> set (slide_texts s2) \<and>
      ''Key Milestones'' \<in> set (slide_texts s3) \<and>
      ''THANK YOU'' \<in> set (slide_texts s4) \<and>
      save (example_env writing_save) [] ''out/report.pptx'' prs =
        (Inr (), [(''out/report.pptx'', 4)]))"
proof -
  have c: "create_tavant_status_report (example_env writing_save) [] ten_of_each =
     (Success ''out/report.pptx'' 4 ''Tavant Status Report created successfully'',
      [(''out/report.pptx'', 4)])"
    by (simp add: create_eq ten_of_each_accepted)
      (simp add: resolve_output_path_def ten_of_each_def example_env_def writing_save_def
        deck_slides)
  from success_has_four_slides [OF c] c show ?thesis
    apply (elim exE conjE)
    subgoal for prs s1 s2 s3 s4
      apply (rule conjI, assumption)
      apply (rule exI [of _ prs], rule exI [of _ s1], rule exI [of _ s2], rule exI [of _ s3],
          rule exI [of _ s4])
      apply simp
      done
    done
qed

section \<open>The cells of a data row\<close>

lemma digit_value: "d < 10 \<Longrightarrow> of_char (digit_char d) - 48 = (d :: nat)"
proof -
  assume "d < 10"
  then have "d \<in> {0, 1, 2, 3, 4, 5, 6, 7, 8, 9}" by auto
  then show ?thesis by (auto simp: digit_char_def)
qed

lemma decimal_value_snoc:
  "decimal_value (s @ [c]) = 10 * decimal_value s + (of_char c - 48)"
  by (simp add: decimal_value_def)

lemma decimal_value_str_nat: "decimal_value (str_nat n) = n"
proof (induction n rule: str_nat.induct)
  case (1 n)
  show ?case
  proof (cases "n < 10")
    case True
    then show ?thesis
      using decimal_value_snoc [of "[]" "digit_char n"]
      by (simp add: str_nat.simps [of n] digit_value decimal_value_def)
  next
    case False
    then show ?thesis
      using 1 by (simp add: str_nat.simps [of n] decimal_value_snoc digit_value)
  qed
qed

lemma dict_get_case: "dict_get d k [] = (case d k of None \<Rightarrow> [] | Some v \<Rightarrow> v)"
  by (simp add: dict_get_def)

lemma table_row_nth:
  "i < length xs \<Longrightarrow> i < 5 \<Longrightarrow> t_rows (priorities_table xs) ! Suc i = priority_row i (xs ! i)"
  "i < length xs \<Longrightarrow> i < 3 \<Longrightarrow> t_rows (risks_table xs) ! Suc i = risk_row i (xs ! i)"
  "i < length xs \<Longrightarrow> i < 6 \<Longrightarrow> t_rows (milestones_table xs) ! Suc i = milestone_row i (xs ! i)"
  "i < length xs \<Longrightarrow> i < 3 \<Longrightarrow> t_rows (upcoming_table xs) ! Suc i = upcoming_row i (xs ! i)"
  by (simp_all add: priorities_table_def risks_table_def milestones_table_def
      upcoming_table_def nth_enumerate_eq)

lemma str_nat_1: "str_nat (Suc 0) = ''1''"
  by (simp add: str_nat.simps digit_char_def)

text \<open>
  Claim C10. For the record at position \<open>i\<close> of a list, below the table's cap, the table
  is built without an exception and the texts of row \<open>i + 1\<close> are, column by column, the
  value of the column's key in the record, or the empty string when the record lacks the
  key. In the priorities, risks and milestones tables the first column holds \<open>i + 1\<close>
  in decimal instead.
\<close>

theorem missing_keys_render_empty:
  assumes "i < length rs"
  shows "(i < 5 \<longrightarrow>
      (\<exists>b t. add_priorities_table slide rs = Inr (slide @ [GraphicFrame b t]) \<and>
         map c_text (t_rows t ! Suc i) =
           [str_nat (Suc i),
            (case (rs ! i) ''description'' of None \<Rightarrow> [] | Some v \<Rightarrow> v),
            (case (rs ! i) ''owner'' of None \<Rightarrow> [] | Some v \<Rightarrow> v)])) \<and>
    (i < 3 \<longrightarrow>
      (\<exists>b t. add_risks_table slide rs = Inr (slide @ [GraphicFrame b t]) \<and>
         map c_text (t_rows t ! Suc i) =
           [str_nat (Suc i),
            (case (rs ! i) ''description'' of None \<Rightarrow> [] | Some v \<Rightarrow> v),
            (case (rs ! i) ''owner'' of None \<Rightarrow> [] | Some v \<Rightarrow> v),
            (case (rs ! i) ''target_date'' of None \<Rightarrow> [] | Some v \<Rightarrow> v),
            (case (rs ! i) ''status'' of None \<Rightarrow> [] | Some v \<Rightarrow> v)])) \<and>
    (i < 6 \<longrightarrow>
      (\<exists>b t. add_milestones_table slide rs tp = Inr (slide @ [GraphicFrame b t]) \<and>
         map c_text (t_rows t ! Suc i) =
           [str_nat (Suc i),
            (case (rs ! i) ''description'' of None \<Rightarrow> [] | Some v \<Rightarrow> v),
            (case (rs ! i) ''target_date'' of None \<Rightarrow> [] | Some v \<Rightarrow> v),
            (case (rs ! i) ''status'' of None \<Rightarrow> [] | Some v \<Rightarrow> v)])) \<and>
    (i < 3 \<longrightarrow>
      (\<exists>b t. add_upcoming_table slide rs tp = Inr (slide @ [GraphicFrame b t]) \<and>
         map c_text (t_rows t ! Suc i) =
           [(case (rs ! i) ''description'' of None \<Rightarrow> [] | Some v \<Rightarrow> v),
            (case (rs ! i) ''target_date'' of None \<Rightarrow> [] | Some v \<Rightarrow> v),
            (case (rs ! i) ''owner'' of None \<Rightarrow> [] | Some v \<Rightarrow> v)])) \<and>
    decimal_value (str_nat (Suc i)) = Suc i"
proof (intro conjI impI)
  assume "i < 5"
  with assms show "\<exists>b t. add_priorities_table slide rs = Inr (slide @ [GraphicFrame b t]) \<and>
         map c_text (t_rows t ! Suc i) =
           [str_nat (Suc i),
            (case (rs ! i) ''description'' of None \<Rightarrow> [] | Some v \<Rightarrow> v),
            (case (rs ! i) ''owner'' of None \<Rightarrow> [] | Some v \<Rightarrow> v)]"
    by (simp add: add_priorities_table_eq table_row_nth priority_row_def
        data_cell_def dict_get_case)
next
  assume "i < 3"
  with assms show "\<exists>b t. add_risks_table slide rs = Inr (slide @ [GraphicFrame b t]) \<and>
         map c_text (t_rows t ! Suc i) =
           [str_nat (Suc i),
            (case (rs ! i) ''description'' of None \<Rightarrow> [] | Some v \<Rightarrow> v),
            (case (rs ! i) ''owner'' of None \<Rightarrow> [] | Some v \<Rightarrow> v),
            (case (rs ! i) ''target_date'' of None \<Rightarrow> [] | Some v \<Rightarrow> v),
            (case (rs ! i) ''status'' of None \<Rightarrow> [] | Some v \<Rightarrow> v)]"
    by (simp add: add_risks_table_eq table_row_nth risk_row_def
        data_cell_def dict_get_case)
next
  assume "i < 6"
  with assms show "\<exists>b t. add_milestones_table slide rs tp = Inr (slide @ [GraphicFrame b t]) \<and>
         map c_text (t_rows t ! Suc i) =
           [str_nat (Suc i),
            (case (rs ! i) ''description'' of None \<Rightarrow> [] | Some v \<Rightarrow> v),
            (case (rs ! i) ''target_date'' of None \<Rightarrow> [] | Some v \<Rightarrow> v),
            (case (rs ! i) ''status'' of None \<Rightarrow> [] | Some v \<Rightarrow> v)]"
    by (simp add: add_milestones_table_eq table_row_nth milestone_row_def
        data_cell_def dict_get_case)
next
  assume "i < 3"
  with assms show "\<exists>b t. add_upcoming_table slide rs tp = Inr (slide @ [GraphicFrame b t]) \<and>
         map c_text (t_rows t ! Suc i) =
           [(case (rs ! i) ''description'' of None \<Rightarrow> [] | Some v \<Rightarrow> v),
            (case (rs ! i) ''target_date'' of None \<Rightarrow> [] | Some v \<Rightarrow> v),
            (case (rs ! i) ''owner'' of None \<Rightarrow> [] | Some v \<Rightarrow> v)]"
    by (simp add: add_upcoming_table_eq table_row_nth upcoming_row_def
        data_cell_def dict_get_case)
next
  show "decimal_value (str_nat (Suc i)) = Suc i" by (rule decimal_value_str_nat)
qed

text \<open>A record that has only the key \<^verbatim>\<open>owner\<close>, in each of the four tables.\<close>

theorem missing_keys_render_empty_example:
  "(\<exists>b t. add_priorities_table [] [[''owner'' \<mapsto> ''Ann'']] = Inr [GraphicFrame b t] \<and>
      map c_text (t_rows t ! 1) = [''1'', [], ''Ann'']) \<and>
   (\<exists>b t. add_risks_table [] [[''owner'' \<mapsto> ''Ann'']] = Inr [GraphicFrame b t] \<and>
      map c_text (t_rows t ! 1) = [''1'', [], ''Ann'', [], []]) \<and>
   (\<exists>b t. add_milestones_table [] [[''owner'' \<mapsto> ''Ann'']] 140 = Inr [GraphicFrame b t] \<and>
      map c_text (t_rows t ! 1) = [''1'', [], [], []]) \<and>
   (\<exists>b t. add_upcoming_table [] [[''owner'' \<mapsto> ''Ann'']] 460 = Inr [GraphicFrame b t] \<and>
      map c_text (t_rows t ! 1) = [[], [], ''Ann''])"
  using missing_keys_render_empty [of 0 "[[''owner'' \<mapsto> ''Ann'']]" "[]" 140]
    missing_keys_render_empty [of 0 "[[''owner'' \<mapsto> ''Ann'']]" "[]" 460]
  by (simp add: str_nat_1)

section \<open>Empty lists and the contact box\<close>

text \<open>
  Claim C6, as amended. When the library accepts every text the script assigns, the deck
  is assembled without an exception, and a table whose list is empty (for the upcoming
  milestones also when the list is not passed) consists of its header row alone. The call
  then fails only if \<^verbatim>\<open>save\<close> raises.
\<close>

theorem empty_list_header_only:
  assumes "rejection env a = None"
  shows "\<exists>prs s1 s2 s3 s4 pt rt mt ut.
     assemble env a = Inr prs \<and> slides prs = [s1, s2, s3, s4] \<and>
     tables_of (s_shapes s2) = [pt, rt] \<and> tables_of (s_shapes s3) = [mt, ut] \<and>
     (priorities a = [] \<longrightarrow>
        t_rows pt = [map header_cell [''#'', ''Description'', ''Owner'']]) \<and>
     (risks a = [] \<longrightarrow>
        t_rows rt =
          [map header_cell [''#'', ''Action Item'', ''Owner'', ''Target Date'', ''Status'']]) \<and>
     (milestones a = [] \<longrightarrow>
        t_rows mt =
          [map header_cell [''#'', ''Milestone Description'', ''Target Date'', ''Status'']]) \<and>
     (upcoming_milestones a = None \<or> upcoming_milestones a = Some [] \<longrightarrow>
        t_rows ut = [map header_cell [''Milestone'', ''Target Date'', ''Owner'']]) \<and>
     create_tavant_status_report env fs a =
       (case save env fs (resolve_output_path env a) prs of
          (Inl e, fs') \<Rightarrow> (Failure (exn_str e), fs')
        | (Inr u, fs') \<Rightarrow>
            (Success (resolve_output_path env a) 4
               ''Tavant Status Report created successfully'', fs'))"
  apply (rule exI [of _ "deck env a"])
  apply (rule exI [of _ "slides (deck env a) ! 0"], rule exI [of _ "slides (deck env a) ! 1"],
      rule exI [of _ "slides (deck env a) ! 2"], rule exI [of _ "slides (deck env a) ! 3"])
  apply (rule exI [of _ "priorities_table (priorities a)"],
      rule exI [of _ "risks_table (risks a)"],
      rule exI [of _ "milestones_table (milestones a)"],
      rule exI [of _ "upcoming_table (or_empty (upcoming_milestones a))"])
  apply (intro conjI impI)
          apply (simp add: assemble_eq assms)
         apply (simp add: deck_slides)
        apply (simp add: deck_slides deck_tables)
       apply (simp add: deck_slides deck_tables)
      apply (simp add: header_only)
     apply (simp add: header_only)
    apply (simp add: header_only)
   apply (auto simp: header_only or_empty_def)[1]
  apply (simp add: create_eq assms)
  done

text \<open>All four lists empty, on a file system that takes the file.\<close>

theorem empty_list_header_only_example:
  "rejection (example_env writing_save) bare = None \<and>
   (\<exists>prs s1 s2 s3 s4 pt rt mt ut.
     assemble (example_env writing_save) bare = Inr prs \<and> slides prs = [s1, s2, s3, s4] \<and>
     tables_of (s_shapes s2) = [pt, rt] \<and> tables_of (s_shapes s3) = [mt, ut] \<and>
     map (map c_text) (t_rows pt) = [[''#'', ''Description'', ''Owner'']] \<and>
     map (map c_text) (t_rows rt) =
       [[''#'', ''Action Item'', ''Owner'', ''Target Date'', ''Status'']] \<and>
     map (map c_text) (t_rows mt) =
       [[''#'', ''Milestone Description'', ''Target Date'', ''Status'']] \<and>
     map (map c_text) (t_rows ut) = [[''Milestone'', ''Target Date'', ''Owner'']] \<and>
     create_tavant_status_report (example_env writing_save) [] bare =
       (Success ''hermes.pptx'' 4 ''Tavant Status Report created successfully'',
        [(''hermes.pptx'', 4)]))"
proof -
  have b: "priorities bare = []" "risks bare = []" "milestones bare = []"
    "upcoming_milestones bare = Some []" "resolve_output_path (example_env writing_save) bare =
      ''hermes.pptx''" "save (example_env writing_save) = writing_save"
    by (simp_all add: bare_def resolve_output_path_def example_env_def)
  from empty_list_header_only [OF bare_accepted, of writing_save "[]"] show ?thesis
    apply (elim exE conjE)
    subgoal for prs s1 s2 s3 s4 pt rt mt ut
      apply (rule conjI, rule bare_accepted)
      apply (rule exI [of _ prs], rule exI [of _ s1], rule exI [of _ s2], rule exI [of _ s3],
          rule exI [of _ s4], rule exI [of _ pt], rule exI [of _ rt], rule exI [of _ mt],
          rule exI [of _ ut])
      apply (simp add: b header_cell_def writing_save_def)
      done
    done
qed

text \<open>
  Claim C6 as stated fails: the request whose lists are all empty and whose project name
  is U+FFFE raises in the title slide. No table is created, \<^verbatim>\<open>save\<close> is not called and
  the call returns the failure dictionary.
\<close>

theorem rejected_text_counterexample:
  "priorities unnamed_project = [] \<and> risks unnamed_project = [] \<and>
   milestones unnamed_project = [] \<and> upcoming_milestones unnamed_project = Some [] \<and>
   assemble (example_env writing_save) unnamed_project =
     Inl (Exn ''ValueError''
       ''All strings must be XML compatible: Unicode or ASCII, no NULL bytes or control characters'') \<and>
   create_tavant_status_report (example_env writing_save) [] unnamed_project =
     (Failure
        ''All strings must be XML compatible: Unicode or ASCII, no NULL bytes or control characters'',
      []) \<and>
   \<not> (\<forall>(env :: disk env) a. priorities a = [] \<longrightarrow> (\<exists>prs. assemble env a = Inr prs))"
proof -
  have l: "priorities unnamed_project = []" "risks unnamed_project = []"
    "milestones unnamed_project = []" "upcoming_milestones unnamed_project = Some []"
    by (simp_all add: unnamed_project_def bare_def)
  have a: "assemble (example_env writing_save) unnamed_project =
     Inl (Exn ''ValueError''
       ''All strings must be XML compatible: Unicode or ASCII, no NULL bytes or control characters'')"
    by (simp add: assemble_eq unnamed_project_rejected)
  have c: "create_tavant_status_report (example_env writing_save) [] unnamed_project =
     (Failure
        ''All strings must be XML compatible: Unicode or ASCII, no NULL bytes or control characters'',
      [])"
    by (simp add: create_eq unnamed_project_rejected)
  have "\<not> (\<forall>(env :: disk env) a. priorities a = [] \<longrightarrow> (\<exists>prs. assemble env a = Inr prs))"
  proof
    assume "\<forall>(env :: disk env) a. priorities a = [] \<longrightarrow> (\<exists>prs. assemble env a = Inr prs)"
    from this [rule_format, OF l(1), of "example_env writing_save"] a show False by simp
  qed
  with l a c show ?thesis by simp
qed

lemma thank_you_shapes_eq:
  "thank_you_shapes c = thank_you_shapes [] @ (if c = [] then [] else [contact_box c])"
  by (simp add: thank_you_shapes_def Let_def)

lemma thank_you_without_contact:
  "length (thank_you_shapes []) = 4"
  "Box 850 610 400 30 \<notin> set (map shape_box (thank_you_shapes []))"
  "shape_box (contact_box c) = Box 850 610 400 30"
  by (simp_all add: thank_you_shapes_def Let_def contact_box_def Box_def)

text \<open>
  Claim C7. The deck built without contact information and the deck built with the
  contact \<open>c\<close> have the same size and the same first three slides. The closing slide
  without contact has four shapes, none of them at the place of the contact box; with a
  contact it has these four shapes and then the contact box. A call that does not pass
  \<^verbatim>\<open>contact_info\<close> is the call that passes the empty string.
\<close>

theorem contact_box_only_difference:
  "(\<exists>prs prs' s1 s2 s3 s4 s4'.
      build_slides env (a\<lparr>contact_info := []\<rparr>) = Inr prs \<and>
      build_slides env (a\<lparr>contact_info := c\<rparr>) = Inr prs' \<and>
      slides prs = [s1, s2, s3, s4] \<and> slides prs' = [s1, s2, s3, s4'] \<and>
      slide_width prs' = slide_width prs \<and> slide_height prs' = slide_height prs \<and>
      s_layout s4' = s_layout s4 \<and>
      s_shapes s4' = (if c = [] then s_shapes s4 else s_shapes s4 @ [contact_box c]) \<and>
      length (s_shapes s4) = 4 \<and>
      Box 850 610 400 30 \<notin> set (map shape_box (s_shapes s4)) \<and>
      shape_box (contact_box c) = Box 850 610 400 30) \<and>
   call_tool env fs (k\<lparr>kw_contact_info := None\<rparr>) =
     call_tool env fs (k\<lparr>kw_contact_info := Some []\<rparr>)"
proof (rule conjI)
  show "\<exists>prs prs' s1 s2 s3 s4 s4'.
      build_slides env (a\<lparr>contact_info := []\<rparr>) = Inr prs \<and>
      build_slides env (a\<lparr>contact_info := c\<rparr>) = Inr prs' \<and>
      slides prs = [s1, s2, s3, s4] \<and> slides prs' = [s1, s2, s3, s4'] \<and>
      slide_width prs' = slide_width prs \<and> slide_height prs' = slide_height prs \<and>
      s_layout s4' = s_layout s4 \<and>
      s_shapes s4' = (if c = [] then s_shapes s4 else s_shapes s4 @ [contact_box c]) \<and>
      length (s_shapes s4) = 4 \<and>
      Box 850 610 400 30 \<notin> set (map shape_box (s_shapes s4)) \<and>
      shape_box (contact_box c) = Box 850 610 400 30"
    apply (rule exI [of _ "deck env (a\<lparr>contact_info := []\<rparr>)"],
        rule exI [of _ "deck env (a\<lparr>contact_info := c\<rparr>)"])
    apply (rule exI [of _ "slides (deck env a) ! 0"], rule exI [of _ "slides (deck env a) ! 1"],
        rule exI [of _ "slides (deck env a) ! 2"])
    apply (rule exI [of _ "\<lparr>s_layout = ''Blank'', s_shapes = thank_you_shapes []\<rparr>"],
        rule exI [of _ "\<lparr>s_layout = ''Blank'', s_shapes = thank_you_shapes c\<rparr>"])
    using thank_you_without_contact(2) thank_you_shapes_eq [of c]
    apply (simp add: build_slides_eq deck_slides thank_you_without_contact(1,3))
    apply (simp add: deck_def)
    done
  show "call_tool env fs (k\<lparr>kw_contact_info := None\<rparr>) =
     call_tool env fs (k\<lparr>kw_contact_info := Some []\<rparr>)"
    by (simp add: call_tool_def missing_arguments_def split: option.splits)
qed

section \<open>Failures\<close>

text \<open>
  Claim C3, as amended. Whenever the \<^verbatim>\<open>try\<close> block raises an exception \<open>e\<close>, in the
  assembly of the slides or in \<^verbatim>\<open>save\<close>, the function returns the failure dictionary
  with \<open>error = str(e)\<close> and the call returns it, no exception leaves the function. The
  error string is empty exactly when the message of the exception is.
\<close>

theorem exception_becomes_failure:
  assumes "try_block env fs a = (Inl e, fs')"
  shows "create_tavant_status_report env fs a = (Failure (exn_str e), fs') \<and>
    call_tool env fs
      \<lparr>kw_project_name = Some (project_name a), kw_period_label = Some (period_label a),
       kw_accomplishments = Some (accomplishments a), kw_priorities = Some (priorities a),
       kw_risks = Some (risks a), kw_milestones = Some (milestones a),
       kw_upcoming_milestones = upcoming_milestones a,
       kw_contact_info = Some (contact_info a), kw_output_path = output_path a\<rparr> =
      (Returned (Failure (exn_str e)), fs') \<and>
    (error (fst (create_tavant_status_report env fs a)) = []) = (exn_str e = [])"
proof -
  have c: "create_tavant_status_report env fs a = (Failure (exn_str e), fs')"
    using assms by (simp add: create_tavant_status_report_def)
  have r: "\<lparr>project_name = project_name a, period_label = period_label a,
      accomplishments = accomplishments a, priorities = priorities a, risks = risks a,
      milestones = milestones a, upcoming_milestones = upcoming_milestones a,
      contact_info = contact_info a, output_path = output_path a\<rparr> = a"
    by simp
  show ?thesis using c by (simp add: call_tool_def r)
qed

text \<open>An output path that is not writable: the error is the message of the PermissionError.\<close>

theorem exception_becomes_failure_unwritable:
  "try_block (example_env denied_save) [] denied =
     (Inl (Exn ''PermissionError''
        (''[Errno 13] Permission denied: '' @ [CHR 39] @ ''/root/report.pptx'' @ [CHR 39])), []) \<and>
   create_tavant_status_report (example_env denied_save) [] denied =
     (Failure (''[Errno 13] Permission denied: '' @ [CHR 39] @ ''/root/report.pptx'' @ [CHR 39]),
      []) \<and>
   error (fst (create_tavant_status_report (example_env denied_save) [] denied)) \<noteq> []"
proof -
  have t: "try_block (example_env denied_save) [] denied =
     (Inl (Exn ''PermissionError''
        (''[Errno 13] Permission denied: '' @ [CHR 39] @ ''/root/report.pptx'' @ [CHR 39])), [])"
    by (simp add: try_block_eq denied_accepted)
      (simp add: resolve_output_path_def denied_def apollo_def example_env_def denied_save_def)
  from exception_becomes_failure [OF t] t show ?thesis by simp
qed

text \<open>
  Claim C3 as stated fails: when \<^verbatim>\<open>save\<close> raises an exception without a message, as
  \<^verbatim>\<open>MemoryError()\<close> is, the error string of the failure dictionary is empty.
\<close>

theorem empty_message_counterexample:
  "try_block (example_env silent_save) [] apollo = (Inl (Exn ''MemoryError'' []), []) \<and>
   create_tavant_status_report (example_env silent_save) [] apollo = (Failure [], []) \<and>
   \<not> (\<forall>(env :: disk env) fs a e fs'.
         try_block env fs a = (Inl e, fs') \<longrightarrow>
         (\<exists>msg. create_tavant_status_report env fs a = (Failure msg, fs') \<and> msg \<noteq> []))"
proof -
  have t: "try_block (example_env silent_save) [] apollo = (Inl (Exn ''MemoryError'' []), [])"
    by (simp add: try_block_eq apollo_accepted) (simp add: example_env_def silent_save_def)
  have c: "create_tavant_status_report (example_env silent_save) [] apollo = (Failure [], [])"
    by (simp add: create_eq apollo_accepted) (simp add: example_env_def silent_save_def)
  have "\<not> (\<forall>(env :: disk env) fs a e fs'.
         try_block env fs a = (Inl e, fs') \<longrightarrow>
         (\<exists>msg. create_tavant_status_report env fs a = (Failure msg, fs') \<and> msg \<noteq> []))"
  proof
    assume "\<forall>(env :: disk env) fs a e fs'.
         try_block env fs a = (Inl e, fs') \<longrightarrow>
         (\<exists>msg. create_tavant_status_report env fs a = (Failure msg, fs') \<and> msg \<noteq> [])"
    from this [rule_format, OF t] c show False by simp
  qed
  with t c show ?thesis by simp
qed

text \<open>
  Claim C9, as amended. A call touches the file system through \<^verbatim>\<open>save\<close> only, called
  once, after the four slides are assembled. When the assembly raises, \<^verbatim>\<open>save\<close> is not
  called, nothing is written and the call returns the failure dictionary. Otherwise the
  file system after the call is the one \<^verbatim>\<open>save\<close> left: the call returns the success
  dictionary when \<^verbatim>\<open>save\<close> returns, and the failure dictionary when it raises, and then
  the function removes nothing of what \<^verbatim>\<open>save\<close> has written.
\<close>

theorem file_system_after_call:
  "(case rejection env a of
      Some e \<Rightarrow>
        assemble env a = Inl e \<and> create_tavant_status_report env fs a = (Failure (exn_str e), fs)
    | None \<Rightarrow>
        (\<exists>prs. assemble env a = Inr prs \<and> length (slides prs) = 4 \<and>
           create_tavant_status_report env fs a =
             (case save env fs (resolve_output_path env a) prs of
                (Inl e, fs') \<Rightarrow> (Failure (exn_str e), fs')
              | (Inr u, fs') \<Rightarrow>
                  (Success (resolve_output_path env a) 4
                     ''Tavant Status Report created successfully'', fs'))))"
proof (cases "rejection env a")
  case None
  then show ?thesis
    by (simp add: assemble_eq create_eq deck_slides)
next
  case (Some e)
  then show ?thesis
    by (simp add: assemble_eq create_eq)
qed

text \<open>
  A project name the library rejects, on a file system that would take the file: the
  call fails and no file is written.
\<close>

theorem file_system_after_rejected_text:
  "create_tavant_status_report (example_env writing_save) [(''old.pptx'', 2)] unnamed_project =
     (Failure
        ''All strings must be XML compatible: Unicode or ASCII, no NULL bytes or control characters'',
      [(''old.pptx'', 2)])"
  using file_system_after_call [of "example_env writing_save" unnamed_project
      "[(''old.pptx'', 2)]"]
  by (simp add: unnamed_project_rejected)

text \<open>
  Claim C9 as stated fails: when \<^verbatim>\<open>save\<close> creates the file and then raises, the call
  returns the failure dictionary and the partial file stays.
\<close>

theorem partial_file_counterexample:
  "create_tavant_status_report (example_env partial_save) [] bare =
     (Failure ''[Errno 28] No space left on device'', [(''hermes.pptx'', 0)]) \<and>
   \<not> (\<forall>(env :: disk env) fs a msg fs'.
         create_tavant_status_report env fs a = (Failure msg, fs') \<longrightarrow> fs' = fs)"
proof -
  have c: "create_tavant_status_report (example_env partial_save) [] bare =
     (Failure ''[Errno 28] No space left on device'', [(''hermes.pptx'', 0)])"
    by (simp add: create_eq bare_accepted)
      (simp add: example_env_def partial_save_def resolve_output_path_def bare_def)
  have "\<not> (\<forall>(env :: disk env) fs a msg fs'.
         create_tavant_status_report env fs a = (Failure msg, fs') \<longrightarrow> fs' = fs)"
  proof
    assume "\<forall>(env :: disk env) fs a msg fs'.
         create_tavant_status_report env fs a = (Failure msg, fs') \<longrightarrow> fs' = fs"
    from this [rule_format, OF c] show False by simp
  qed
  with c show ?thesis by simp
qed

section \<open>A call with the required fields only\<close>

text \<open>
  Claim C4. The schema of the tool requires \<^verbatim>\<open>project_name\<close>, \<^verbatim>\<open>period_label\<close> and
  \<^verbatim>\<open>accomplishments\<close> only, but a call that passes just these three raises TypeError for
  the parameters \<^verbatim>\<open>priorities\<close>, \<^verbatim>\<open>risks\<close> and \<^verbatim>\<open>milestones\<close>, which have no
  default; with the three lists passed empty the same call returns a dictionary.
\<close>

theorem required_fields_only_raises:
  "schema_required = [''project_name'', ''period_label'', ''accomplishments''] \<and>
   missing_arguments apollo_request = [''priorities'', ''risks'', ''milestones''] \<and>
   call_tool env fs apollo_request =
     (Raised (Exn ''TypeError''
        (''create_tavant_status_report() missing 3 required positional arguments: '' @
         [CHR 39] @ ''priorities'' @ [CHR 39] @ '', '' @
         [CHR 39] @ ''risks'' @ [CHR 39] @ '', and '' @
         [CHR 39] @ ''milestones'' @ [CHR 39])), fs) \<and>
   (\<exists>r fs'. call_tool env fs
        (apollo_request\<lparr>kw_priorities := Some [], kw_risks := Some [],
           kw_milestones := Some []\<rparr>) = (Returned r, fs'))"
proof (intro conjI)
  show "schema_required = [''project_name'', ''period_label'', ''accomplishments'']"
    by (simp add: schema_required_def)
  show m: "missing_arguments apollo_request = [''priorities'', ''risks'', ''milestones'']"
    by (simp add: missing_arguments_def apollo_request_def)
  show "call_tool env fs apollo_request =
     (Raised (Exn ''TypeError''
        (''create_tavant_status_report() missing 3 required positional arguments: '' @
         [CHR 39] @ ''priorities'' @ [CHR 39] @ '', '' @
         [CHR 39] @ ''risks'' @ [CHR 39] @ '', and '' @
         [CHR 39] @ ''milestones'' @ [CHR 39])), fs)"
    unfolding call_tool_def m
    by (simp add: apollo_request_def missing_message_def str_nat.simps digit_char_def)
  show "\<exists>r fs'. call_tool env fs
        (apollo_request\<lparr>kw_priorities := Some [], kw_risks := Some [],
           kw_milestones := Some []\<rparr>) = (Returned r, fs')"
    by (simp add: call_tool_def apollo_request_def split: prod.splits)
qed

text \<open>
  Claim C8. The call of the claim passes the project Apollo, the period and one
  accomplishment, and nothing else: it raises TypeError, as every call without the three
  lists of records does, so no path is synthesized and no dictionary returned. With the
  three lists passed empty the same call saves the deck at
  \<^verbatim>\<open>Tavant_WSR_Apollo_<YYYYmmdd_HHMMSS>.pptx\<close>, the time stamp being the clock's at that
  moment, and returns the success dictionary with this path and four slides.
\<close>

theorem apollo_call_raises:
  "call_tool env fs apollo_request =
     (Raised (Exn ''TypeError''
        (missing_message [''priorities'', ''risks'', ''milestones''])), fs) \<and>
   call_tool (example_env writing_save) []
       (apollo_request\<lparr>kw_priorities := Some [], kw_risks := Some [],
          kw_milestones := Some []\<rparr>) =
     (Returned (Success ''Tavant_WSR_Apollo_20251213_090530.pptx'' 4
        ''Tavant Status Report created successfully''),
      [(''Tavant_WSR_Apollo_20251213_090530.pptx'', 4)]) \<and>
   call_tool ((example_env writing_save)\<lparr>now_save := later_clock\<rparr>) []
       (apollo_request\<lparr>kw_priorities := Some [], kw_risks := Some [],
          kw_milestones := Some []\<rparr>) =
     (Returned (Success ''Tavant_WSR_Apollo_20260102_174508.pptx'' 4
        ''Tavant Status Report created successfully''),
      [(''Tavant_WSR_Apollo_20260102_174508.pptx'', 4)])"
proof (intro conjI)
  have m: "missing_arguments apollo_request = [''priorities'', ''risks'', ''milestones'']"
    by (simp add: missing_arguments_def apollo_request_def)
  show "call_tool env fs apollo_request =
     (Raised (Exn ''TypeError''
        (missing_message [''priorities'', ''risks'', ''milestones''])), fs)"
    unfolding call_tool_def m by (simp add: apollo_request_def)
  have k: "call_tool env' fs'
       (apollo_request\<lparr>kw_priorities := Some [], kw_risks := Some [],
          kw_milestones := Some []\<rparr>) =
     (case create_tavant_status_report env' fs' apollo of (r, fs'') \<Rightarrow> (Returned r, fs''))"
    for env' :: "disk env" and fs'
    by (simp add: call_tool_def apollo_request_def apollo_def)
  show "call_tool (example_env writing_save) []
       (apollo_request\<lparr>kw_priorities := Some [], kw_risks := Some [],
          kw_milestones := Some []\<rparr>) =
     (Returned (Success ''Tavant_WSR_Apollo_20251213_090530.pptx'' 4
        ''Tavant Status Report created successfully''),
      [(''Tavant_WSR_Apollo_20251213_090530.pptx'', 4)])"
    unfolding k
    by (simp add: create_eq apollo_accepted)
      (simp add: resolve_output_path_def apollo_def example_env_def example_timestamp
        replace_spaces_def writing_save_def deck_slides)
  show "call_tool ((example_env writing_save)\<lparr>now_save := later_clock\<rparr>) []
       (apollo_request\<lparr>kw_priorities := Some [], kw_risks := Some [],
          kw_milestones := Some []\<rparr>) =
     (Returned (Success ''Tavant_WSR_Apollo_20260102_174508.pptx'' 4
        ''Tavant Status Report created successfully''),
      [(''Tavant_WSR_Apollo_20260102_174508.pptx'', 4)])"
    unfolding k
    by (simp add: create_eq apollo_accepted_later)
      (simp add: resolve_output_path_def apollo_def example_env_def later_timestamp
        replace_spaces_def writing_save_def deck_slides)
qed

end
